theory Spec2Isabelle
  imports Main "HOL-Library.AList" "HOL-Library.Char_ord" "HOL-Library.List_Lexorder"
    "HOL-Library.Product_Lexorder"
begin

section \<open>JavaScript values, thrown values and promises\<close>

text \<open>
  The connectors are TypeScript classes whose methods are \<^verbatim>\<open>async\<close>.  A call of such
  a method ends in one of three ways: its promise is fulfilled with a value, it is
  rejected with a thrown value, or it stays pending for ever.
\<close>

datatype jsval =
    JUndefined
  | JNull
  | JBool bool
  | JNum int
  | JStr string
  | JArr "jsval list"
  | JObj "(string \<times> jsval) list"

text \<open>
  Thrown values.  Every \<^verbatim>\<open>throw\<close> of the source throws \<^verbatim>\<open>new Error(msg)\<close>;
  a \<^verbatim>\<open>TypeError\<close> is what the runtime throws when a property of \<^verbatim>\<open>undefined\<close>
  is read, and \<open>ThrownUndefined\<close> is \<^verbatim>\<open>throw lastError\<close> with \<^verbatim>\<open>lastError\<close>
  never assigned.
\<close>

datatype thrown = Error string | TypeError string | ThrownUndefined

datatype 'a outcome = Returns 'a | Throws thrown | Hangs

text \<open>\<^verbatim>\<open>error.message\<close> and \<^verbatim>\<open>error.constructor.name\<close>; both throw on \<^verbatim>\<open>undefined\<close>.\<close>

fun message_of :: "thrown \<Rightarrow> thrown + string" where
  "message_of (Error m) = Inr m"
| "message_of (TypeError m) = Inr m"
| "message_of ThrownUndefined =
     Inl (TypeError ''Cannot read properties of undefined (reading 'message')'')"

fun constructor_name :: "thrown \<Rightarrow> thrown + string" where
  "constructor_name (Error m) = Inr ''Error''"
| "constructor_name (TypeError m) = Inr ''TypeError''"
| "constructor_name ThrownUndefined =
     Inl (TypeError ''Cannot read properties of undefined (reading 'constructor')'')"

text \<open>Truthiness, as in \<^verbatim>\<open>if (x)\<close>, \<^verbatim>\<open>!x\<close> and \<^verbatim>\<open>x || y\<close>.\<close>

fun truthy :: "jsval \<Rightarrow> bool" where
  "truthy JUndefined = False"
| "truthy JNull = False"
| "truthy (JBool b) = b"
| "truthy (JNum n) = (n \<noteq> 0)"
| "truthy (JStr t) = (t \<noteq> [])"
| "truthy (JArr xs) = True"
| "truthy (JObj kvs) = True"

text \<open>
  \<^verbatim>\<open>x.key\<close> for a value parsed from JSON and one of the keys \<^verbatim>\<open>tools\<close> and \<^verbatim>\<open>name\<close>,
  which no string, number, boolean or array has: an object gives the value stored under
  the key, or \<^verbatim>\<open>undefined\<close>; reading a property of \<^verbatim>\<open>undefined\<close> or \<^verbatim>\<open>null\<close> throws.
\<close>

fun own_property :: "string \<Rightarrow> jsval \<Rightarrow> jsval" where
  "own_property key (JObj kvs) = (case map_of kvs key of None \<Rightarrow> JUndefined | Some x \<Rightarrow> x)"
| "own_property key x = JUndefined"

fun get_property :: "jsval \<Rightarrow> string \<Rightarrow> thrown + jsval" where
  "get_property JUndefined key =
     Inl (TypeError (''Cannot read properties of undefined (reading '' @ [CHR 0x27] @ key @
                     [CHR 0x27] @ '')''))"
| "get_property JNull key =
     Inl (TypeError (''Cannot read properties of null (reading '' @ [CHR 0x27] @ key @
                     [CHR 0x27] @ '')''))"
| "get_property x key = Inr (own_property key x)"

text \<open>
  \<^verbatim>\<open>x === y\<close> where one side was parsed from a message: primitive values are compared by
  value, and an object or array is a different object from any other.
\<close>

fun strict_eq :: "jsval \<Rightarrow> jsval \<Rightarrow> bool" where
  "strict_eq JUndefined y = (y = JUndefined)"
| "strict_eq JNull y = (y = JNull)"
| "strict_eq (JBool b) y = (y = JBool b)"
| "strict_eq (JNum n) y = (y = JNum n)"
| "strict_eq (JStr t) y = (y = JStr t)"
| "strict_eq (JArr xs) y = False"
| "strict_eq (JObj kvs) y = False"

section \<open>The MCP client\<close>

datatype ready_state = CONNECTING | OPEN | CLOSING | CLOSED

text \<open>
  The argument of \<^verbatim>\<open>client.request\<close>, with its fields \<^verbatim>\<open>method\<close> and \<^verbatim>\<open>params\<close>,
  and the JSON-RPC message made from it.
\<close>

record request =
  rq_method :: string
  rq_params :: jsval

record outgoing =
  jsonrpc :: string
  out_id :: nat
  out_method :: string
  out_params :: jsval

text \<open>
  A parsed message of the server.  \<open>msg_id\<close> is \<^verbatim>\<open>message.id\<close> (\<open>0\<close> is falsy, as is
  a missing id), \<open>msg_error\<close> is \<^verbatim>\<open>message.error.message\<close> when \<^verbatim>\<open>message.error\<close> is
  truthy; \<open>msg_result\<close> and \<open>msg_tokensUsed\<close> are whatever the message carries under
  \<^verbatim>\<open>result\<close> and \<^verbatim>\<open>tokensUsed\<close>, \<^verbatim>\<open>undefined\<close> when it carries nothing.
\<close>

record message =
  msg_id :: nat
  msg_error :: "string option"
  msg_result :: jsval
  msg_tokensUsed :: jsval

text \<open>
  The promise of a request is named by the number of the request that created it; the
  table maps a request id to the \<^verbatim>\<open>{resolve, reject}\<close> pair of its promise.  A
  JavaScript \<^verbatim>\<open>Map\<close> keeps insertion order, hence an association list.
\<close>

type_synonym promise = nat

datatype settlement = Resolved promise message | Rejected promise thrown

fun promise_of :: "settlement \<Rightarrow> promise" where
  "promise_of (Resolved p m) = p"
| "promise_of (Rejected p e) = p"

record client_config =
  cc_endpoint :: string
  cc_apiKey :: "string option"
  cc_timeout :: int

record CustomMCPClient =
  ws :: "ready_state option"
  requestId :: nat
  pendingRequests :: "(nat \<times> promise) list"
  client_cfg :: client_config

definition new_CustomMCPClient :: "client_config \<Rightarrow> CustomMCPClient" where
  "new_CustomMCPClient cfg =
     \<lparr>ws = None, requestId = 0, pendingRequests = [], client_cfg = cfg\<rparr>"

text \<open>
  Everything the code does to the outside: the messages given to \<^verbatim>\<open>ws.send\<close>, the calls
  of \<^verbatim>\<open>resolve\<close> and \<^verbatim>\<open>reject\<close>, the URLs of the sockets opened, the delays slept
  in the retry loop, the calls of \<^verbatim>\<open>client.request\<close>, the number of readings of
  \<^verbatim>\<open>Date.now()\<close>, and the number of calls of \<^verbatim>\<open>ws.close()\<close>.
\<close>

record world =
  sent :: "outgoing list"
  settled :: "settlement list"
  dialed :: "string list"
  slept :: "nat list"
  requested :: "request list"
  readings :: nat
  socket_closes :: nat

definition world0 :: world where
  "world0 = \<lparr>sent = [], settled = [], dialed = [], slept = [], requested = [], readings = 0,
             socket_closes = 0\<rparr>"

text \<open>\<^verbatim>\<open>this.config.endpoint.replace(/^http/, 'ws')\<close>.\<close>

definition wsUrl :: "string \<Rightarrow> string" where
  "wsUrl e = (if take 4 e = ''http'' then ''ws'' @ drop 4 e else e)"

text \<open>
  \<^verbatim>\<open>initialize\<close> up to the creation of its promise: the socket is created and is
  connecting.  The runtime then opens it (\<open>socket_opens\<close>, followed by \<^verbatim>\<open>onopen\<close>) or
  closes it (\<open>onclose\<close> below).
\<close>

definition initialize_start :: "CustomMCPClient \<Rightarrow> world \<Rightarrow> CustomMCPClient \<times> world" where
  "initialize_start c w =
     (c\<lparr>ws := Some CONNECTING\<rparr>, w\<lparr>dialed := dialed w @ [wsUrl (cc_endpoint (client_cfg c))]\<rparr>)"

definition socket_opens :: "CustomMCPClient \<Rightarrow> CustomMCPClient" where
  "socket_opens c = (if ws c = Some CONNECTING then c\<lparr>ws := Some OPEN\<rparr> else c)"

text \<open>
  \<^verbatim>\<open>request\<close> up to the creation of its promise: the connection check, the fresh id,
  the registration and the send.
\<close>

definition request_send ::
  "request \<Rightarrow> CustomMCPClient \<Rightarrow> world \<Rightarrow> (thrown + promise) \<times> CustomMCPClient \<times> world" where
  "request_send rq c w =
     (if ws c \<noteq> Some OPEN then (Inl (Error ''MCP client not connected''), c, w)
      else
        let i = requestId c + 1;
            msg = \<lparr>jsonrpc = ''2.0'', out_id = i, out_method = rq_method rq, out_params = rq_params rq\<rparr>
        in (Inr i,
            c\<lparr>requestId := i, pendingRequests := AList.update i i (pendingRequests c)\<rparr>,
            w\<lparr>sent := sent w @ [msg]\<rparr>))"

text \<open>The callback of the request's \<^verbatim>\<open>setTimeout\<close>.\<close>

definition request_timer :: "nat \<Rightarrow> CustomMCPClient \<Rightarrow> CustomMCPClient \<times> settlement list" where
  "request_timer i c =
     (case map_of (pendingRequests c) i of
        None \<Rightarrow> (c, [])
      | Some pending \<Rightarrow>
          (c\<lparr>pendingRequests := AList.delete i (pendingRequests c)\<rparr>,
           [Rejected pending (Error ''Request timeout'')]))"

definition handleMessage :: "message \<Rightarrow> CustomMCPClient \<Rightarrow> CustomMCPClient \<times> settlement list" where
  "handleMessage m c =
     (if msg_id m \<noteq> 0 \<and> map_of (pendingRequests c) (msg_id m) \<noteq> None then
        (case map_of (pendingRequests c) (msg_id m) of
           None \<Rightarrow> (c, [])
         | Some pending \<Rightarrow>
             (c\<lparr>pendingRequests := AList.delete (msg_id m) (pendingRequests c)\<rparr>,
              [case msg_error m of
                 Some text \<Rightarrow> Rejected pending (Error text)
               | None \<Rightarrow> Resolved pending m]))
      else (c, []))"

definition rejectPendingRequests ::
  "thrown \<Rightarrow> CustomMCPClient \<Rightarrow> CustomMCPClient \<times> settlement list" where
  "rejectPendingRequests e c =
     (c\<lparr>pendingRequests := []\<rparr>, map (\<lambda>(i, pending). Rejected pending e) (pendingRequests c))"

text \<open>
  \<^verbatim>\<open>rejectPendingRequests\<close> rejects every entry and then clears the table; a rejection
  only schedules the code that waits for the promise, so nothing runs in between and the
  two are one step here.  \<^verbatim>\<open>ws.onclose\<close>: the socket is closed and the pending requests
  are rejected.
\<close>

definition onclose :: "CustomMCPClient \<Rightarrow> CustomMCPClient \<times> settlement list" where
  "onclose c =
     rejectPendingRequests (Error ''Connection closed'')
       (c\<lparr>ws := map_option (\<lambda>s. CLOSED) (ws c)\<rparr>)"

text \<open>
  \<^verbatim>\<open>close\<close>: the socket, if there is one, is closed (\<^verbatim>\<open>ws.close()\<close>) and forgotten, then
  the pending requests are rejected.
\<close>

definition close :: "CustomMCPClient \<Rightarrow> world \<Rightarrow> CustomMCPClient \<times> world" where
  "close c w =
     (case (if ws c \<noteq> None
            then (c\<lparr>ws := None\<rparr>, w\<lparr>socket_closes := socket_closes w + 1\<rparr>)
            else (c, w)) of
        (c1, w1) \<Rightarrow>
          (case rejectPendingRequests (Error ''Client closing'') c1 of
             (c2, ss) \<Rightarrow> (c2, w1\<lparr>settled := settled w1 @ ss\<rparr>)))"

text \<open>
  What can happen to a client, one callback or call at a time; \<open>run\<close> applies a
  sequence of them and collects the settlements in the world.
\<close>

datatype event =
    DoInitialize
  | SocketOpens
  | DoRequest request
  | MessageArrives message
  | TimerFires nat
  | SocketCloses
  | DoClose

fun step :: "CustomMCPClient \<times> world \<Rightarrow> event \<Rightarrow> CustomMCPClient \<times> world" where
  "step (c, w) DoInitialize = initialize_start c w"
| "step (c, w) SocketOpens = (socket_opens c, w)"
| "step (c, w) (DoRequest rq) = (case request_send rq c w of (r, c', w') \<Rightarrow> (c', w'))"
| "step (c, w) (MessageArrives m) =
     (case handleMessage m c of (c', ss) \<Rightarrow> (c', w\<lparr>settled := settled w @ ss\<rparr>))"
| "step (c, w) (TimerFires i) =
     (case request_timer i c of (c', ss) \<Rightarrow> (c', w\<lparr>settled := settled w @ ss\<rparr>))"
| "step (c, w) SocketCloses =
     (case onclose c of (c', ss) \<Rightarrow> (c', w\<lparr>settled := settled w @ ss\<rparr>))"
| "step (c, w) DoClose = close c w"

definition run :: "CustomMCPClient \<times> world \<Rightarrow> event list \<Rightarrow> CustomMCPClient \<times> world" where
  "run s evs = foldl step s evs"

text \<open>
  The invariant of the table: the keys are distinct, each key is a request id already
  handed out and names its own promise; no promise is settled twice, and a settled
  promise belongs to a request id already handed out that is no longer in the table.
\<close>

definition table_inv :: "CustomMCPClient \<times> world \<Rightarrow> bool" where
  "table_inv s \<longleftrightarrow>
     (case s of (c, w) \<Rightarrow>
        distinct (map fst (pendingRequests c)) \<and>
        list_all (\<lambda>(i, pending). pending = i \<and> 0 < i \<and> i \<le> requestId c) (pendingRequests c) \<and>
        distinct (map promise_of (settled w)) \<and>
        list_all (\<lambda>x. promise_of x \<le> requestId c \<and>
                      promise_of x \<notin> set (map fst (pendingRequests c))) (settled w))"

section \<open>The environment of the MCP connector\<close>

text \<open>
  The provider and the network are an oracle.  \<open>dial\<close> says what becomes of the
  \<open>n\<close>-th socket opened (its URL is taken to be well formed): it opens, it fails
  (\<^verbatim>\<open>onerror\<close>, then \<^verbatim>\<open>onclose\<close>), or nothing happens before the connection timer.  \<open>arrivals\<close> says what reaches the client between the send
  of the \<open>n\<close>-th message and the firing of that request's timer: messages of the
  server and the close of the socket, in order (all of them are handled before the
  awaiting code goes on).  \<open>clock\<close> is the \<open>n\<close>-th reading of \<^verbatim>\<open>Date.now()\<close>.
\<close>

datatype dial_outcome = Opens | Refused | Stalls

datatype arrival = Message message | Closed

record environment =
  dial :: "nat \<Rightarrow> dial_outcome"
  arrivals :: "nat \<Rightarrow> arrival list"
  clock :: "nat \<Rightarrow> int"

definition Date_now :: "environment \<Rightarrow> world \<Rightarrow> int \<times> world" where
  "Date_now env w = (clock env (readings w), w\<lparr>readings := readings w + 1\<rparr>)"

fun arrive :: "arrival \<Rightarrow> CustomMCPClient \<Rightarrow> CustomMCPClient \<times> settlement list" where
  "arrive (Message m) c = handleMessage m c"
| "arrive Closed c = onclose c"

fun deliver :: "arrival list \<Rightarrow> CustomMCPClient \<Rightarrow> CustomMCPClient \<times> settlement list" where
  "deliver [] c = (c, [])"
| "deliver (a # rest) c =
     (case arrive a c of (c1, ss) \<Rightarrow>
      case deliver rest c1 of (c2, ts) \<Rightarrow> (c2, ss @ ts))"

text \<open>What the awaiting caller sees of promise \<open>p\<close>: its first settlement, if any.\<close>

definition settlement_outcome :: "promise \<Rightarrow> settlement list \<Rightarrow> message outcome" where
  "settlement_outcome p ss =
     (case find (\<lambda>x. promise_of x = p) ss of
        None \<Rightarrow> Hangs
      | Some (Resolved q m) \<Rightarrow> Returns m
      | Some (Rejected q e) \<Rightarrow> Throws e)"

text \<open>\<^verbatim>\<open>await this.client.initialize()\<close>.\<close>

definition initialize ::
  "environment \<Rightarrow> CustomMCPClient \<Rightarrow> world \<Rightarrow> unit outcome \<times> CustomMCPClient \<times> world" where
  "initialize env c w =
     (case initialize_start c w of (c1, w1) \<Rightarrow>
        (case dial env (length (dialed w)) of
           Opens \<Rightarrow> (Returns (), socket_opens c1, w1)
         | Refused \<Rightarrow>
             (case onclose c1 of (c2, ss) \<Rightarrow>
                (Throws (Error ''Failed to connect to MCP server''), c2,
                 w1\<lparr>settled := settled w1 @ ss\<rparr>))
         | Stalls \<Rightarrow> (Throws (Error ''Connection timeout''), c1, w1)))"

text \<open>\<^verbatim>\<open>await client.request(request)\<close>.\<close>

definition request ::
  "environment \<Rightarrow> request \<Rightarrow> CustomMCPClient \<Rightarrow> world \<Rightarrow>
     message outcome \<times> CustomMCPClient \<times> world" where
  "request env rq c w0 =
     (let w = w0\<lparr>requested := requested w0 @ [rq]\<rparr> in
      case request_send rq c w of
        (Inl e, c1, w1) \<Rightarrow> (Throws e, c1, w1)
      | (Inr p, c1, w1) \<Rightarrow>
          (case deliver (arrivals env (length (sent w))) c1 of (c2, ss) \<Rightarrow>
           case request_timer p c2 of (c3, ts) \<Rightarrow>
             (settlement_outcome p (ss @ ts), c3, w1\<lparr>settled := settled w1 @ ss @ ts\<rparr>)))"

text \<open>
  \<^verbatim>\<open>listTools\<close> returns \<^verbatim>\<open>response.result.tools\<close>, whatever it is: the declared type
  \<^verbatim>\<open>CustomMCPTool[]\<close> is not checked, and a result without \<^verbatim>\<open>tools\<close> gives
  \<^verbatim>\<open>undefined\<close>.  Reading \<^verbatim>\<open>.tools\<close> of a missing result is a \<^verbatim>\<open>TypeError\<close>.
\<close>

definition listTools ::
  "environment \<Rightarrow> CustomMCPClient \<Rightarrow> world \<Rightarrow> jsval outcome \<times> CustomMCPClient \<times> world" where
  "listTools env c w =
     (case request env \<lparr>rq_method = ''tools/list'', rq_params = JObj []\<rparr> c w of
        (Returns response, c1, w1) \<Rightarrow>
          (case get_property (msg_result response) ''tools'' of
             Inl type_error \<Rightarrow> (Throws type_error, c1, w1)
           | Inr tools \<Rightarrow> (Returns tools, c1, w1))
      | (Throws e, c1, w1) \<Rightarrow> (Throws e, c1, w1)
      | (Hangs, c1, w1) \<Rightarrow> (Hangs, c1, w1))"

section \<open>The MCP connector\<close>

record CustomMCPConfig =
  endpoint :: string
  apiKey :: "string option"
  timeout :: "int option"
  retryAttempts :: "int option"

text \<open>
  \<^verbatim>\<open>x || d\<close> on an optional number (whole numbers only: \<open>0\<close> and a missing value are
  falsy) and on an optional string (the empty string and a missing value are falsy).
\<close>

definition num_or :: "int option \<Rightarrow> int \<Rightarrow> int" where
  "num_or x d = (case x of None \<Rightarrow> d | Some n \<Rightarrow> if n = 0 then d else n)"

definition str_or :: "string option \<Rightarrow> string \<Rightarrow> string" where
  "str_or x d = (case x of None \<Rightarrow> d | Some t \<Rightarrow> if t = [] then d else t)"

record CustomMCPConfig_options =
  opt_endpoint :: "string option"
  opt_apiKey :: "string option"
  opt_timeout :: "int option"
  opt_retryAttempts :: "int option"

text \<open>\<open>env_key\<close> is \<^verbatim>\<open>process.env.CUSTOM_MCP_API_KEY\<close>.\<close>

definition createCustomMCPConfig :: "string option \<Rightarrow> CustomMCPConfig_options \<Rightarrow> CustomMCPConfig" where
  "createCustomMCPConfig env_key options =
     \<lparr>endpoint = str_or (opt_endpoint options) ''ws://localhost:3003'',
      apiKey = (case opt_apiKey options of
                  None \<Rightarrow> env_key
                | Some k \<Rightarrow> if k = [] then env_key else Some k),
      timeout = Some (num_or (opt_timeout options) 30000),
      retryAttempts = Some (num_or (opt_retryAttempts options) 3)\<rparr>"

text \<open>
  \<^verbatim>\<open>availableTools\<close> starts as the empty array and then holds what \<^verbatim>\<open>listTools\<close>
  returned.  A tool (\<^verbatim>\<open>CustomMCPTool\<close>) is declared with a name, a description and two
  schemas; the connector reads the name only.
\<close>

record CustomMCPConnector =
  client :: "CustomMCPClient option"
  availableTools :: jsval
  config :: CustomMCPConfig

definition new_CustomMCPConnector :: "CustomMCPConfig \<Rightarrow> CustomMCPConnector" where
  "new_CustomMCPConnector cfg = \<lparr>client = None, availableTools = JArr [], config = cfg\<rparr>"

record OpenFile =
  path :: string
  content :: string
  file_language :: string

record ProjectInfo =
  project_type :: string
  technologies :: "string list"
  dependencies :: jsval

record WorkspaceContext =
  openFiles :: "OpenFile list"
  selection :: jsval
  projectInfo :: ProjectInfo
  workspaceRoot :: string

record Task =
  task_type :: string
  task_description :: string
  task_language :: "string option"
  task_complexity :: jsval

record ToolResponse =
  success :: bool
  data :: jsval
  error :: "string option"
  toolId :: string
  metadata :: "(string \<times> jsval) list"

text \<open>
  \<^verbatim>\<open>connect\<close>.  The new client is stored in \<^verbatim>\<open>this.client\<close> before it is
  initialised, so it stays there when \<^verbatim>\<open>initialize\<close> or \<^verbatim>\<open>listTools\<close> throws.
\<close>

definition connect ::
  "environment \<Rightarrow> CustomMCPConnector \<Rightarrow> world \<Rightarrow>
     CustomMCPClient outcome \<times> CustomMCPConnector \<times> world" where
  "connect env k w =
     (case client k of
        Some c \<Rightarrow> (Returns c, k, w)
      | None \<Rightarrow>
          (case initialize env
                  (new_CustomMCPClient
                     \<lparr>cc_endpoint = endpoint (config k), cc_apiKey = apiKey (config k),
                      cc_timeout = num_or (timeout (config k)) 30000\<rparr>) w of
             (Returns u, c1, w1) \<Rightarrow>
               (case listTools env c1 w1 of
                  (Returns tools, c2, w2) \<Rightarrow>
                    (Returns c2, k\<lparr>client := Some c2, availableTools := tools\<rparr>, w2)
                | (Throws e, c2, w2) \<Rightarrow> (Throws e, k\<lparr>client := Some c2\<rparr>, w2)
                | (Hangs, c2, w2) \<Rightarrow> (Hangs, k\<lparr>client := Some c2\<rparr>, w2))
           | (Throws e, c1, w1) \<Rightarrow> (Throws e, k\<lparr>client := Some c1\<rparr>, w1)
           | (Hangs, c1, w1) \<Rightarrow> (Hangs, k\<lparr>client := Some c1\<rparr>, w1)))"

definition taskToToolMap :: "(string \<times> string) list" where
  "taskToToolMap =
     [(''analysis'', ''code-analyzer''),
      (''optimization'', ''performance-optimizer''),
      (''security'', ''security-scanner''),
      (''refactoring'', ''code-refactorer''),
      (''documentation'', ''doc-generator'')]"

text \<open>
  \<^verbatim>\<open>taskToToolMap[task.type]\<close>.  The map is an object literal: a type that is not one of
  its keys gives \<^verbatim>\<open>undefined\<close>, unless it names a property every object inherits, which
  gives that function or object (here an object of its own, equal to nothing else).
\<close>

definition object_prototype_keys :: "string list" where
  "object_prototype_keys =
     [''constructor'', ''hasOwnProperty'', ''isPrototypeOf'', ''propertyIsEnumerable'',
      ''toLocaleString'', ''toString'', ''valueOf'', ''__proto__'', ''__defineGetter__'',
      ''__defineSetter__'', ''__lookupGetter__'', ''__lookupSetter__'']"

definition taskToToolMap_at :: "string \<Rightarrow> jsval" where
  "taskToToolMap_at task_type_name =
     (case map_of taskToToolMap task_type_name of
        Some toolName \<Rightarrow> JStr toolName
      | None \<Rightarrow> if task_type_name \<in> set object_prototype_keys then JObj [] else JUndefined)"

text \<open>
  \<^verbatim>\<open>tools.find(tool => tool.name === toolName)\<close> on the elements of an array: the first
  element whose name is the tool name, \<^verbatim>\<open>undefined\<close> (here \<open>None\<close>) when there is none;
  reading the name of an element that is \<^verbatim>\<open>null\<close> throws.
\<close>

fun find_tool :: "jsval \<Rightarrow> jsval list \<Rightarrow> thrown + jsval option" where
  "find_tool toolName [] = Inr None"
| "find_tool toolName (tool # tools) =
     (case get_property tool ''name'' of
        Inl type_error \<Rightarrow> Inl type_error
      | Inr tool_name \<Rightarrow>
          if strict_eq tool_name toolName then Inr (Some tool) else find_tool toolName tools)"

text \<open>
  \<^verbatim>\<open>mapTaskToMCPTool\<close>.  Calling \<^verbatim>\<open>find\<close> on \<^verbatim>\<open>availableTools\<close> throws when that is
  not an array; \<^verbatim>\<open>|| null\<close> turns a missing or falsy element into \<^verbatim>\<open>null\<close> (\<open>None\<close>).
\<close>

definition mapTaskToMCPTool :: "jsval \<Rightarrow> Task \<Rightarrow> thrown + jsval option" where
  "mapTaskToMCPTool tools task =
     (let toolName = taskToToolMap_at (task_type task) in
      case tools of
        JArr elements \<Rightarrow>
          (case find_tool toolName elements of
             Inl type_error \<Rightarrow> Inl type_error
           | Inr None \<Rightarrow> Inr None
           | Inr (Some tool) \<Rightarrow> if truthy tool then Inr (Some tool) else Inr None)
      | JUndefined \<Rightarrow> Inl (TypeError ''Cannot read properties of undefined (reading 'find')'')
      | JNull \<Rightarrow> Inl (TypeError ''Cannot read properties of null (reading 'find')'')
      | _ \<Rightarrow> Inl (TypeError ''this.availableTools.find is not a function''))"

definition serializeContext :: "WorkspaceContext \<Rightarrow> jsval" where
  "serializeContext context =
     JObj [(''openFiles'',
              JArr (map (\<lambda>file. JObj [(''path'', JStr (path file)),
                                        (''content'', JStr (content file)),
                                        (''language'', JStr (file_language file))])
                        (openFiles context))),
           (''selection'', selection context),
           (''projectInfo'',
              JObj [(''type'', JStr (project_type (projectInfo context))),
                    (''technologies'', JArr (map JStr (technologies (projectInfo context)))),
                    (''dependencies'', dependencies (projectInfo context))]),
           (''workspaceRoot'', JStr (workspaceRoot context))]"

text \<open>
  \<^verbatim>\<open>pattern.test(s)\<close> for a pattern that is a plain lower-case word with the flag
  \<^verbatim>\<open>i\<close>: some part of \<open>s\<close> spells the word, letters \<open>A\<close> to \<open>Z\<close> counting as \<open>a\<close> to \<open>z\<close>.
\<close>

definition to_lower :: "char \<Rightarrow> char" where
  "to_lower ch =
     (case map_of (zip ''ABCDEFGHIJKLMNOPQRSTUVWXYZ'' ''abcdefghijklmnopqrstuvwxyz'') ch of
        Some l \<Rightarrow> l
      | None \<Rightarrow> ch)"

fun starts_with :: "string \<Rightarrow> string \<Rightarrow> bool" where
  "starts_with [] s = True"
| "starts_with (p # ps) [] = False"
| "starts_with (p # ps) (ch # s) = (p = ch \<and> starts_with ps s)"

fun contains :: "string \<Rightarrow> string \<Rightarrow> bool" where
  "contains pat [] = (pat = [])"
| "contains pat (ch # s) = (starts_with pat (ch # s) \<or> contains pat s)"

definition test_i :: "string \<Rightarrow> string \<Rightarrow> bool" where
  "test_i pat s = contains pat (map to_lower s)"

definition retryablePatterns :: "string list" where
  "retryablePatterns =
     [''timeout'', ''connection reset'', ''server temporarily unavailable'', ''rate limit'']"

definition isRetryableError :: "string \<Rightarrow> bool" where
  "isRetryableError error_message = list_ex (\<lambda>pattern. test_i pattern error_message) retryablePatterns"

text \<open>The value \<^verbatim>\<open>executeWithRetry\<close> returns: the response, spread, and two more fields.\<close>

record retry_result =
  response :: message
  executionTime :: int
  attempt_number :: nat

fun throw_lastError :: "thrown option \<Rightarrow> 'a outcome" where
  "throw_lastError None = Throws ThrownUndefined"
| "throw_lastError (Some e) = Throws e"

text \<open>
  The loop of \<^verbatim>\<open>executeWithRetry\<close>, from the test \<^verbatim>\<open>attempt <= maxRetries\<close> on.
  The right operand of \<^verbatim>\<open>&&\<close> reads \<^verbatim>\<open>error.message\<close> and is evaluated only when
  the left one holds.
\<close>

function executeWithRetry_loop ::
  "environment \<Rightarrow> int \<Rightarrow> request \<Rightarrow> nat \<Rightarrow> thrown option \<Rightarrow> CustomMCPClient \<Rightarrow> world \<Rightarrow>
     retry_result outcome \<times> CustomMCPClient \<times> world" where
  "executeWithRetry_loop env maxRetries rq attempt lastError c w =
     (if int attempt \<le> maxRetries then
        (case Date_now env w of (startTime, w1) \<Rightarrow>
           (case request env rq c w1 of
              (Returns resp, c2, w2) \<Rightarrow>
                (case Date_now env w2 of (finish, w3) \<Rightarrow>
                   (Returns \<lparr>response = resp, executionTime = finish - startTime,
                             attempt_number = attempt + 1\<rparr>, c2, w3))
            | (Hangs, c2, w2) \<Rightarrow> (Hangs, c2, w2)
            | (Throws e, c2, w2) \<Rightarrow>
                (if int attempt < maxRetries then
                   (case message_of e of
                      Inl type_error \<Rightarrow> (Throws type_error, c2, w2)
                    | Inr text \<Rightarrow>
                        if isRetryableError text then
                          executeWithRetry_loop env maxRetries rq (attempt + 1) (Some e) c2
                            (w2\<lparr>slept := slept w2 @ [2 ^ attempt * 1000]\<rparr>)
                        else (throw_lastError (Some e), c2, w2))
                 else (throw_lastError (Some e), c2, w2))))
      else (throw_lastError lastError, c, w))"
  by pat_completeness auto
termination
  by (relation "measure (\<lambda>(env, maxRetries, rq, attempt, lastError, c, w).
                           nat (maxRetries + 1 - int attempt))") auto

definition executeWithRetry ::
  "environment \<Rightarrow> CustomMCPConfig \<Rightarrow> CustomMCPClient \<Rightarrow> request \<Rightarrow> world \<Rightarrow>
     retry_result outcome \<times> CustomMCPClient \<times> world" where
  "executeWithRetry env cfg c rq w =
     executeWithRetry_loop env (num_or (retryAttempts cfg) 3) rq 0 None c w"

text \<open>The \<^verbatim>\<open>catch\<close> block of \<^verbatim>\<open>invoke\<close>.\<close>

definition invoke_catch :: "CustomMCPConfig \<Rightarrow> thrown \<Rightarrow> ToolResponse outcome" where
  "invoke_catch cfg e =
     (case message_of e of
        Inl type_error \<Rightarrow> Throws type_error
      | Inr text \<Rightarrow>
          (case constructor_name e of
             Inl type_error \<Rightarrow> Throws type_error
           | Inr errorType \<Rightarrow>
               Returns \<lparr>success = False, data = JUndefined, error = Some text,
                        toolId = ''custom-mcp'',
                        metadata = [(''errorType'', JStr errorType),
                                    (''retryAttempts'', JNum (num_or (retryAttempts cfg) 0))]\<rparr>))"

definition opt_str :: "string option \<Rightarrow> jsval" where
  "opt_str x = (case x of None \<Rightarrow> JUndefined | Some t \<Rightarrow> JStr t)"

text \<open>The request \<^verbatim>\<open>mcpRequest\<close> that \<^verbatim>\<open>invoke\<close> prepares for the tool it found.\<close>

definition mcpRequest :: "jsval \<Rightarrow> Task \<Rightarrow> WorkspaceContext \<Rightarrow> request" where
  "mcpRequest mcpTool task context =
     \<lparr>rq_method = ''tools/call'',
      rq_params = JObj [(''name'', own_property ''name'' mcpTool),
                        (''arguments'',
                           JObj [(''description'', JStr (task_description task)),
                                 (''context'', serializeContext context),
                                 (''language'', opt_str (task_language task)),
                                 (''complexity'', task_complexity task)])]\<rparr>"

text \<open>
  \<^verbatim>\<open>invoke\<close>.  \<^verbatim>\<open>connect\<close> is awaited before the \<^verbatim>\<open>try\<close> block; what
  \<^verbatim>\<open>mapTaskToMCPTool\<close> or \<^verbatim>\<open>executeWithRetry\<close> throws, and the error thrown when no tool
  is found, go to the \<^verbatim>\<open>catch\<close> block.
\<close>

definition invoke ::
  "environment \<Rightarrow> Task \<Rightarrow> WorkspaceContext \<Rightarrow> CustomMCPConnector \<Rightarrow> world \<Rightarrow>
     ToolResponse outcome \<times> CustomMCPConnector \<times> world" where
  "invoke env task context k w =
     (case connect env k w of
        (Throws e, k1, w1) \<Rightarrow> (Throws e, k1, w1)
      | (Hangs, k1, w1) \<Rightarrow> (Hangs, k1, w1)
      | (Returns c, k1, w1) \<Rightarrow>
          (case mapTaskToMCPTool (availableTools k1) task of
             Inl type_error \<Rightarrow> (invoke_catch (config k1) type_error, k1, w1)
           | Inr None \<Rightarrow>
               (invoke_catch (config k1)
                  (Error (''No MCP tool available for task type: '' @ task_type task)), k1, w1)
           | Inr (Some mcpTool) \<Rightarrow>
               (case executeWithRetry env (config k1) c (mcpRequest mcpTool task context) w1 of
                  (Returns r, c2, w2) \<Rightarrow>
                    (Returns \<lparr>success = True, data = msg_result (response r), error = None,
                              toolId = ''custom-mcp'',
                              metadata = [(''toolUsed'', own_property ''name'' mcpTool),
                                          (''executionTime'', JNum (executionTime r)),
                                          (''tokensUsed'', msg_tokensUsed (response r))]\<rparr>,
                     k1\<lparr>client := Some c2\<rparr>, w2)
                | (Throws e, c2, w2) \<Rightarrow> (invoke_catch (config k1) e, k1\<lparr>client := Some c2\<rparr>, w2)
                | (Hangs, c2, w2) \<Rightarrow> (Hangs, k1\<lparr>client := Some c2\<rparr>, w2))))"

definition testHealth ::
  "environment \<Rightarrow> CustomMCPConnector \<Rightarrow> world \<Rightarrow> bool outcome \<times> CustomMCPConnector \<times> world" where
  "testHealth env k w =
     (case connect env k w of
        (Returns c, k1, w1) \<Rightarrow>
          (case request env \<lparr>rq_method = ''ping'', rq_params = JObj []\<rparr> c w1 of
             (Returns pingResponse, c2, w2) \<Rightarrow>
               (Returns (msg_result pingResponse = JStr ''pong''), k1\<lparr>client := Some c2\<rparr>, w2)
           | (Throws e, c2, w2) \<Rightarrow> (Returns False, k1\<lparr>client := Some c2\<rparr>, w2)
           | (Hangs, c2, w2) \<Rightarrow> (Hangs, k1\<lparr>client := Some c2\<rparr>, w2))
      | (Throws e, k1, w1) \<Rightarrow> (Returns False, k1, w1)
      | (Hangs, k1, w1) \<Rightarrow> (Hangs, k1, w1))"

definition disconnect :: "CustomMCPConnector \<Rightarrow> world \<Rightarrow> CustomMCPConnector \<times> world" where
  "disconnect k w =
     (case client k of
        Some c \<Rightarrow> (case close c w of (c1, w1) \<Rightarrow> (k\<lparr>client := None\<rparr>, w1))
      | None \<Rightarrow> (k, w))"

section \<open>The Continue connector\<close>

text \<open>
  The editor, as far as the connector reads it.  \<open>installed\<close> is what
  \<^verbatim>\<open>vscode.extensions.getExtension('Continue.continue')\<close> finds, \<open>lookup_fault\<close> a value
  that call throws instead; \<open>activation\<close> is what becomes of \<^verbatim>\<open>extension.activate()\<close>
  and \<open>command_result n\<close> what becomes of the \<open>n\<close>-th \<^verbatim>\<open>executeCommand\<close>; a command
  that fails rejects with an \<^verbatim>\<open>Error\<close> carrying a message.  \<open>executed\<close> lists the
  commands run so far.
\<close>

record Extension =
  isActive :: bool

record TextEditor =
  fileName :: string
  selection_range :: jsval
  selection_active :: jsval
  selected_text :: string

datatype command_outcome = Completes jsval | Fails string | NeverSettles

record vscode =
  installed :: "Extension option"
  lookup_fault :: "thrown option"
  activation :: command_outcome
  activeTextEditor :: "TextEditor option"
  getCommands :: "string list"
  command_result :: "nat \<Rightarrow> command_outcome"
  executed :: "(string \<times> string) list"

definition getExtension :: "vscode \<Rightarrow> thrown + Extension option" where
  "getExtension v = (case lookup_fault v of Some e \<Rightarrow> Inl e | None \<Rightarrow> Inr (installed v))"

definition executeCommand :: "vscode \<Rightarrow> string \<Rightarrow> string \<Rightarrow> jsval outcome \<times> vscode" where
  "executeCommand v command arg =
     (case command_result v (length (executed v)) of
        Completes r \<Rightarrow> Returns r
      | Fails text \<Rightarrow> Throws (Error text)
      | NeverSettles \<Rightarrow> Hangs,
      v\<lparr>executed := executed v @ [(command, arg)]\<rparr>)"

record ContinueConfig =
  enableChat :: bool
  enableEdit :: bool
  enableCompletion :: bool
  maxResponseTime :: int

record ContinueConfig_options =
  opt_enableChat :: "bool option"
  opt_enableEdit :: "bool option"
  opt_enableCompletion :: "bool option"
  opt_maxResponseTime :: "int option"

definition createContinueConfig :: "ContinueConfig_options \<Rightarrow> ContinueConfig" where
  "createContinueConfig options =
     \<lparr>enableChat = (case opt_enableChat options of None \<Rightarrow> True | Some b \<Rightarrow> b),
      enableEdit = (case opt_enableEdit options of None \<Rightarrow> True | Some b \<Rightarrow> b),
      enableCompletion = (case opt_enableCompletion options of None \<Rightarrow> True | Some b \<Rightarrow> b),
      maxResponseTime = (case opt_maxResponseTime options of None \<Rightarrow> 30000 | Some n \<Rightarrow> n)\<rparr>"

record ContinueConnector =
  extension :: "Extension option"
  isInitialized :: bool
  continue_config :: ContinueConfig

definition new_ContinueConnector :: "ContinueConfig \<Rightarrow> ContinueConnector" where
  "new_ContinueConnector cfg = \<lparr>extension = None, isInitialized = False, continue_config = cfg\<rparr>"

text \<open>
  \<^verbatim>\<open>connect\<close>.  The field \<^verbatim>\<open>this.extension\<close> and the editor hold the same object, so
  an activation shows in both.
\<close>

definition Continue_connect ::
  "vscode \<Rightarrow> ContinueConnector \<Rightarrow> unit outcome \<times> ContinueConnector \<times> vscode" where
  "Continue_connect v k =
     (if extension k \<noteq> None \<and> isInitialized k then (Returns (), k, v)
      else
        (case getExtension v of
           Inl e \<Rightarrow> (Throws e, k, v)
         | Inr None \<Rightarrow> (Throws (Error ''Continue extension not found''), k\<lparr>extension := None\<rparr>, v)
         | Inr (Some ext) \<Rightarrow>
             (if \<not> isActive ext then
                (case activation v of
                   Completes u \<Rightarrow>
                     (Returns (),
                      k\<lparr>extension := Some (ext\<lparr>isActive := True\<rparr>), isInitialized := True\<rparr>,
                      v\<lparr>installed := Some (ext\<lparr>isActive := True\<rparr>)\<rparr>)
                 | Fails text \<Rightarrow> (Throws (Error text), k\<lparr>extension := Some ext\<rparr>, v)
                 | NeverSettles \<Rightarrow> (Hangs, k\<lparr>extension := Some ext\<rparr>, v))
              else (Returns (), k\<lparr>extension := Some ext, isInitialized := True\<rparr>, v))))"

text \<open>Strings: \<^verbatim>\<open>xs.join(sep)\<close> and a number in a template.\<close>

fun join :: "string \<Rightarrow> string list \<Rightarrow> string" where
  "join sep [] = []"
| "join sep [x] = x"
| "join sep (x # y # rest) = x @ sep @ join sep (y # rest)"

fun show_nat :: "nat \<Rightarrow> string" where
  "show_nat n =
     (if n < 10 then [''0123456789'' ! n]
      else show_nat (n div 10) @ [''0123456789'' ! (n mod 10)])"

definition summarizeContext :: "WorkspaceContext \<Rightarrow> string" where
  "summarizeContext context =
     join ''\<newline>''
       ([''Project: '' @ project_type (projectInfo context),
         ''Technologies: '' @ join '', '' (technologies (projectInfo context)),
         ''Open files: '' @ show_nat (length (openFiles context))] @
        (if length (openFiles context) > 0
         then [''Current files: '' @ join '', '' (map path (openFiles context))]
         else []))"

definition getAnalysisScope :: "WorkspaceContext \<Rightarrow> string" where
  "getAnalysisScope context =
     (if truthy (selection context) then ''selected code''
      else if length (openFiles context) = 1 then ''current file''
      else if length (openFiles context) > 1 then ''multiple open files''
      else ''project level'')"

text \<open>
  The prompts.  Each template starts with a line break and ends with a line break and
  four spaces, which \<^verbatim>\<open>trim()\<close> removes; what is left starts with \<^verbatim>\<open>Please\<close> and ends
  with a full stop.
\<close>

definition buildPlanningPrompt :: "Task \<Rightarrow> WorkspaceContext \<Rightarrow> string" where
  "buildPlanningPrompt task context =
     join ''\<newline>''
       [''Please help me plan the following:'',
        task_description task,
        [],
        ''Current project context:'',
        ''- Project type: '' @ project_type (projectInfo context),
        ''- Technologies: '' @ join '', '' (technologies (projectInfo context)),
        ''- Open files: '' @ join '', '' (map path (openFiles context)),
        [],
        ''Please provide:'',
        ''1. High-level architecture approach'',
        ''2. Key components and their responsibilities'',
        ''3. Implementation steps'',
        ''4. Potential challenges and solutions'',
        [],
        ''Focus on '' @ str_or (task_language task) ''the current'' @ '' language best practices.'']"

definition buildRefactoringPrompt :: "vscode \<Rightarrow> Task \<Rightarrow> WorkspaceContext \<Rightarrow> string" where
  "buildRefactoringPrompt v task context =
     join ''\<newline>''
       [''Please refactor the following code according to this request:'',
        task_description task,
        [],
        ''Code to refactor:'',
        ''```'' @ str_or (task_language task) ''javascript'',
        (case activeTextEditor v of None \<Rightarrow> [] | Some editor \<Rightarrow> selected_text editor),
        ''```'',
        [],
        ''Project context:'',
        ''- File: '' @ (case activeTextEditor v of None \<Rightarrow> ''undefined'' | Some editor \<Rightarrow> fileName editor),
        ''- Project type: '' @ project_type (projectInfo context),
        ''- Technologies: '' @ join '', '' (technologies (projectInfo context)),
        [],
        ''Please provide improved code that maintains functionality while addressing the request.'']"

definition buildAnalysisPrompt :: "Task \<Rightarrow> WorkspaceContext \<Rightarrow> string" where
  "buildAnalysisPrompt task context =
     join ''\<newline>''
       [''Please analyze the following code/project according to this request:'',
        task_description task,
        [],
        ''Current context:'',
        summarizeContext context,
        [],
        ''Please provide:'',
        ''1. Key findings and observations'',
        ''2. Potential issues or improvements'',
        ''3. Recommendations and next steps'',
        ''4. Best practices considerations'',
        [],
        ''Focus on '' @ str_or (task_language task) ''general'' @ '' best practices and maintainability.'']"

text \<open>The handlers; each awaits one command of the extension.\<close>

definition handleCompletion ::
  "vscode \<Rightarrow> ContinueConfig \<Rightarrow> Task \<Rightarrow> WorkspaceContext \<Rightarrow> ToolResponse outcome \<times> vscode" where
  "handleCompletion v cfg task context =
     (if \<not> enableCompletion cfg then (Throws (Error ''Completion not enabled for Continue''), v)
      else
        (case activeTextEditor v of
           None \<Rightarrow> (Throws (Error ''No active editor for completion''), v)
         | Some editor \<Rightarrow>
             (case executeCommand v ''continue.quickEdit'' (task_description task) of
                (Returns result, v1) \<Rightarrow>
                  (Returns \<lparr>success = True,
                            data = JObj [(''type'', JStr ''completion''), (''suggestion'', result),
                                         (''position'', selection_active editor)],
                            error = None, toolId = ''continue'',
                            metadata = [(''method'', JStr ''quickEdit''),
                                        (''editor'', JStr (fileName editor))]\<rparr>, v1)
              | (Throws e, v1) \<Rightarrow> (Throws e, v1)
              | (Hangs, v1) \<Rightarrow> (Hangs, v1))))"

definition handlePlanning ::
  "vscode \<Rightarrow> ContinueConfig \<Rightarrow> Task \<Rightarrow> WorkspaceContext \<Rightarrow> ToolResponse outcome \<times> vscode" where
  "handlePlanning v cfg task context =
     (if \<not> enableChat cfg then (Throws (Error ''Chat not enabled for Continue''), v)
      else
        (let chatMessage = buildPlanningPrompt task context in
         case executeCommand v ''continue.sendChatMessage'' chatMessage of
           (Returns result, v1) \<Rightarrow>
             (Returns \<lparr>success = True,
                       data = JObj [(''type'', JStr ''planning''), (''plan'', result),
                                    (''context'', JStr (summarizeContext context))],
                       error = None, toolId = ''continue'',
                       metadata = [(''method'', JStr ''chat''),
                                   (''promptLength'', JNum (int (length chatMessage)))]\<rparr>, v1)
         | (Throws e, v1) \<Rightarrow> (Throws e, v1)
         | (Hangs, v1) \<Rightarrow> (Hangs, v1)))"

definition handleRefactoring ::
  "vscode \<Rightarrow> ContinueConfig \<Rightarrow> Task \<Rightarrow> WorkspaceContext \<Rightarrow> ToolResponse outcome \<times> vscode" where
  "handleRefactoring v cfg task context =
     (if \<not> enableEdit cfg then (Throws (Error ''Edit not enabled for Continue''), v)
      else
        (case activeTextEditor v of
           None \<Rightarrow> (Throws (Error ''No active editor for refactoring''), v)
         | Some editor \<Rightarrow>
             (let refactorPrompt = buildRefactoringPrompt v task context in
              case executeCommand v ''continue.continueEdit'' refactorPrompt of
                (Returns result, v1) \<Rightarrow>
                  (Returns \<lparr>success = True,
                            data = JObj [(''type'', JStr ''refactoring''), (''changes'', result),
                                         (''originalCode'', JStr (selected_text editor)),
                                         (''fileName'', JStr (fileName editor))],
                            error = None, toolId = ''continue'',
                            metadata = [(''method'', JStr ''continueEdit''),
                                        (''selectionRange'', selection_range editor)]\<rparr>, v1)
              | (Throws e, v1) \<Rightarrow> (Throws e, v1)
              | (Hangs, v1) \<Rightarrow> (Hangs, v1))))"

definition handleAnalysis ::
  "vscode \<Rightarrow> Task \<Rightarrow> WorkspaceContext \<Rightarrow> ToolResponse outcome \<times> vscode" where
  "handleAnalysis v task context =
     (let analysisPrompt = buildAnalysisPrompt task context in
      case executeCommand v ''continue.sendChatMessage'' analysisPrompt of
        (Returns result, v1) \<Rightarrow>
          (Returns \<lparr>success = True,
                    data = JObj [(''type'', JStr ''analysis''), (''analysis'', result),
                                 (''scope'', JStr (getAnalysisScope context))],
                    error = None, toolId = ''continue'',
                    metadata = [(''method'', JStr ''chat''),
                                (''filesAnalyzed'', JNum (int (length (openFiles context))))]\<rparr>, v1)
      | (Throws e, v1) \<Rightarrow> (Throws e, v1)
      | (Hangs, v1) \<Rightarrow> (Hangs, v1))"

definition handleGenericTask ::
  "vscode \<Rightarrow> Task \<Rightarrow> WorkspaceContext \<Rightarrow> ToolResponse outcome \<times> vscode" where
  "handleGenericTask v task context =
     (let genericPrompt =
            task_description task @ ''\<newline>\<newline>Context: '' @ summarizeContext context in
      case executeCommand v ''continue.sendChatMessage'' genericPrompt of
        (Returns result, v1) \<Rightarrow>
          (Returns \<lparr>success = True,
                    data = JObj [(''type'', JStr ''generic''), (''response'', result)],
                    error = None, toolId = ''continue'',
                    metadata = [(''method'', JStr ''chat''),
                                (''taskType'', JStr (task_type task))]\<rparr>, v1)
      | (Throws e, v1) \<Rightarrow> (Throws e, v1)
      | (Hangs, v1) \<Rightarrow> (Hangs, v1))"

text \<open>The \<^verbatim>\<open>catch\<close> block of the Continue connector's \<^verbatim>\<open>invoke\<close>.\<close>

definition Continue_invoke_catch :: "Task \<Rightarrow> thrown \<Rightarrow> ToolResponse outcome" where
  "Continue_invoke_catch task e =
     (case message_of e of
        Inl type_error \<Rightarrow> Throws type_error
      | Inr text \<Rightarrow>
          (case constructor_name e of
             Inl type_error \<Rightarrow> Throws type_error
           | Inr errorType \<Rightarrow>
               Returns \<lparr>success = False, data = JUndefined, error = Some text,
                        toolId = ''continue'',
                        metadata = [(''taskType'', JStr (task_type task)),
                                    (''errorType'', JStr errorType)]\<rparr>))"

definition Continue_invoke ::
  "vscode \<Rightarrow> Task \<Rightarrow> WorkspaceContext \<Rightarrow> ContinueConnector \<Rightarrow>
     ToolResponse outcome \<times> ContinueConnector \<times> vscode" where
  "Continue_invoke v task context k =
     (case Continue_connect v k of
        (Throws e, k1, v1) \<Rightarrow> (Throws e, k1, v1)
      | (Hangs, k1, v1) \<Rightarrow> (Hangs, k1, v1)
      | (Returns u, k1, v1) \<Rightarrow>
          (case (if task_type task = ''completion''
                   then handleCompletion v1 (continue_config k1) task context
                 else if task_type task = ''planning''
                   then handlePlanning v1 (continue_config k1) task context
                 else if task_type task = ''refactoring''
                   then handleRefactoring v1 (continue_config k1) task context
                 else if task_type task = ''analysis''
                   then handleAnalysis v1 task context
                 else handleGenericTask v1 task context) of
             (Returns r, v2) \<Rightarrow> (Returns r, k1, v2)
           | (Throws e, v2) \<Rightarrow> (Continue_invoke_catch task e, k1, v2)
           | (Hangs, v2) \<Rightarrow> (Hangs, k1, v2)))"

definition Continue_testHealth :: "vscode \<Rightarrow> bool outcome" where
  "Continue_testHealth v =
     (case getExtension v of
        Inl e \<Rightarrow> Returns False
      | Inr None \<Rightarrow> Returns False
      | Inr (Some ext) \<Rightarrow> Returns (isActive ext \<or> False))"

definition Continue_disconnect :: "ContinueConnector \<Rightarrow> ContinueConnector" where
  "Continue_disconnect k = k\<lparr>isInitialized := False\<rparr>"

definition testContinueCapabilities :: "vscode \<Rightarrow> string list outcome" where
  "testContinueCapabilities v =
     (case getExtension v of
        Inl e \<Rightarrow> Throws e
      | Inr ext \<Rightarrow>
          (if \<not> (case ext of None \<Rightarrow> False | Some x \<Rightarrow> isActive x) then Returns []
           else
             (let commands = getCommands v;
                  capabilities = [];
                  capabilities = (if ''continue.quickEdit'' \<in> set commands
                                  then capabilities @ [''completion'', ''refactoring'']
                                  else capabilities);
                  capabilities = (if ''continue.sendChatMessage'' \<in> set commands
                                  then capabilities @ [''planning'', ''analysis'', ''general-purpose'']
                                  else capabilities);
                  capabilities = (if ''continue.continueEdit'' \<in> set commands
                                  then capabilities @ [''code-editing'']
                                  else capabilities)
              in Returns capabilities)))"

section \<open>Example values and auxiliary notions\<close>

definition ping :: request where
  "ping = \<lparr>rq_method = ''ping'', rq_params = JObj []\<rparr>"

definition pong :: "nat \<Rightarrow> message" where
  "pong i = \<lparr>msg_id = i, msg_error = None, msg_result = JStr ''pong'',
             msg_tokensUsed = JUndefined\<rparr>"

definition ccfg :: client_config where
  "ccfg = \<lparr>cc_endpoint = ''http://localhost:3003'', cc_apiKey = None, cc_timeout = 30000\<rparr>"

text \<open>
  A settlement that is a fulfilment, or a rejection with an \<^verbatim>\<open>Error\<close>: the only ones the
  client makes.
\<close>

definition rejects_Error :: "settlement \<Rightarrow> bool" where
  "rejects_Error x = (case x of Resolved p m \<Rightarrow> True | Rejected p e \<Rightarrow> (case e of Error t \<Rightarrow> True | _ \<Rightarrow> False))"

text \<open>
  The delays of the retry loop: \<open>backoffs a n\<close> lists what is slept after the attempts
  \<open>a\<close>, \<open>a + 1\<close>, and so on, \<open>n\<close> of them.
\<close>

definition backoffs :: "nat \<Rightarrow> nat \<Rightarrow> nat list" where
  "backoffs a n = map (\<lambda>i. 2 ^ i * 1000) [a ..< a + n]"

definition no_options :: CustomMCPConfig_options where
  "no_options = \<lparr>opt_endpoint = None, opt_apiKey = None, opt_timeout = None, opt_retryAttempts = None\<rparr>"

definition default_config :: CustomMCPConfig where
  "default_config = createCustomMCPConfig None no_options"

definition open_client :: CustomMCPClient where
  "open_client = \<lparr>ws = Some OPEN, requestId = 0, pendingRequests = [],
                   client_cfg = \<lparr>cc_endpoint = ''ws://localhost:3003'', cc_apiKey = None, cc_timeout = 30000\<rparr>\<rparr>"

definition env_silent :: environment where
  "env_silent = \<lparr>dial = (\<lambda>n. Opens), arrivals = (\<lambda>n. []), clock = (\<lambda>n. 0)\<rparr>"

definition unavailable :: "nat \<Rightarrow> message" where
  "unavailable i = \<lparr>msg_id = i, msg_error = Some ''Server temporarily unavailable'',
                    msg_result = JUndefined, msg_tokensUsed = JUndefined\<rparr>"

definition env_unavailable :: environment where
  "env_unavailable = \<lparr>dial = (\<lambda>n. Opens), arrivals = (\<lambda>n. [Message (unavailable (n + 1))]),
                       clock = (\<lambda>n. 0)\<rparr>"

text \<open>
  The classification of retryable errors in the words of the specification: timeout,
  connection reset and rate limit, to be compared with \<open>isRetryableError\<close>.
\<close>

definition claimed_retryable :: "string \<Rightarrow> bool" where
  "claimed_retryable error_message \<longleftrightarrow>
     test_i ''timeout'' error_message \<or> test_i ''connection reset'' error_message \<or>
     test_i ''rate limit'' error_message"

definition env_refused :: environment where
  "env_refused = \<lparr>dial = (\<lambda>n. Refused), arrivals = (\<lambda>n. []), clock = (\<lambda>n. 0)\<rparr>"

definition answer :: "nat \<Rightarrow> jsval list \<Rightarrow> message" where
  "answer i tools = \<lparr>msg_id = i, msg_error = None, msg_result = JObj [(''tools'', JArr tools)],
                     msg_tokensUsed = JNum 12\<rparr>"

definition code_analyzer :: jsval where
  "code_analyzer = JObj [(''name'', JStr ''code-analyzer''), (''description'', JStr ''Static analysis'')]"

definition env_answering :: "jsval list \<Rightarrow> environment" where
  "env_answering tools =
     \<lparr>dial = (\<lambda>n. Opens), arrivals = (\<lambda>n. [Message (answer (n + 1) tools)]), clock = (\<lambda>n. 5 * int n)\<rparr>"

definition analysis_task :: Task where
  "analysis_task = \<lparr>task_type = ''analysis'', task_description = ''Review the parser'',
                    task_language = Some ''typescript'', task_complexity = JStr ''medium''\<rparr>"

definition deployment_task :: Task where
  "deployment_task = \<lparr>task_type = ''deployment'', task_description = ''Ship it'',
                      task_language = None, task_complexity = JUndefined\<rparr>"

definition empty_context :: WorkspaceContext where
  "empty_context = \<lparr>openFiles = [], selection = JUndefined,
                    projectInfo = \<lparr>project_type = ''node'', technologies = [''typescript''],
                                   dependencies = JObj []\<rparr>,
                    workspaceRoot = ''/work''\<rparr>"

definition connected_connector :: CustomMCPConnector where
  "connected_connector =
     \<lparr>client = Some open_client, availableTools = JArr [code_analyzer], config = default_config\<rparr>"

definition continue_commands :: "string list" where
  "continue_commands = [''continue.quickEdit'', ''continue.sendChatMessage'', ''continue.continueEdit'']"

definition vscode_without_continue :: vscode where
  "vscode_without_continue =
     \<lparr>installed = None, lookup_fault = None, activation = Completes JUndefined,
      activeTextEditor = None, getCommands = [], command_result = (\<lambda>n. Completes JUndefined),
      executed = []\<rparr>"

definition vscode_ready :: vscode where
  "vscode_ready =
     \<lparr>installed = Some \<lparr>isActive = True\<rparr>, lookup_fault = None, activation = Completes JUndefined,
      activeTextEditor = None, getCommands = continue_commands,
      command_result = (\<lambda>n. Completes (JStr ''1. Split the parser'')), executed = []\<rparr>"

definition vscode_unanswering :: vscode where
  "vscode_unanswering = vscode_ready\<lparr>command_result := (\<lambda>n. NeverSettles)\<rparr>"

definition default_continue_config :: ContinueConfig where
  "default_continue_config =
     createContinueConfig \<lparr>opt_enableChat = None, opt_enableEdit = None,
                           opt_enableCompletion = None, opt_maxResponseTime = None\<rparr>"

definition planning_task :: Task where
  "planning_task = \<lparr>task_type = ''planning'', task_description = ''Plan the migration'',
                    task_language = None, task_complexity = JUndefined\<rparr>"

text \<open>The capability names the probe of the Continue extension can report, in its order.\<close>

definition capability_names :: "string list" where
  "capability_names =
     [''completion'', ''refactoring'', ''planning'', ''analysis'', ''general-purpose'', ''code-editing'']"

definition vscode_inactive :: vscode where
  "vscode_inactive = vscode_ready\<lparr>installed := Some \<lparr>isActive = False\<rparr>\<rparr>"

text \<open>
  The failed response the \<^verbatim>\<open>catch\<close> block of the MCP connector builds from a message
  and the name of the error's constructor, and the response of a successful call.
\<close>

definition mcp_failure :: "CustomMCPConfig \<Rightarrow> string \<Rightarrow> string \<Rightarrow> ToolResponse" where
  "mcp_failure cfg error_message errorType =
     \<lparr>success = False, data = JUndefined, error = Some error_message, toolId = ''custom-mcp'',
      metadata = [(''errorType'', JStr errorType),
                  (''retryAttempts'', JNum (num_or (retryAttempts cfg) 0))]\<rparr>"

definition mcp_success :: "jsval \<Rightarrow> retry_result \<Rightarrow> ToolResponse" where
  "mcp_success mcpTool r =
     \<lparr>success = True, data = msg_result (response r), error = None, toolId = ''custom-mcp'',
      metadata = [(''toolUsed'', own_property ''name'' mcpTool),
                  (''executionTime'', JNum (executionTime r)),
                  (''tokensUsed'', msg_tokensUsed (response r))]\<rparr>"

text \<open>
  A tool as \<^verbatim>\<open>CustomMCPTool\<close> declares it, as far as the connector reads it: an object
  with a string under \<^verbatim>\<open>name\<close>.  \<open>supports tools t\<close>: the map gives a tool name for the
  task type \<open>t\<close> and a tool of that name is available.
\<close>

fun named :: "jsval \<Rightarrow> bool" where
  "named (JObj kvs) = (case map_of kvs ''name'' of Some (JStr n) \<Rightarrow> True | _ \<Rightarrow> False)"
| "named x = False"

definition supports :: "jsval list \<Rightarrow> string \<Rightarrow> bool" where
  "supports tools task_type_name =
     (case map_of taskToToolMap task_type_name of
        None \<Rightarrow> False
      | Some toolName \<Rightarrow> list_ex (\<lambda>tool. own_property ''name'' tool = JStr toolName) tools)"

definition nameless_tool :: jsval where
  "nameless_tool = JObj [(''description'', JStr ''A tool without a name'')]"

text \<open>
  The failed response the \<^verbatim>\<open>catch\<close> block of the Continue connector builds from the
  message of an \<^verbatim>\<open>Error\<close>.
\<close>

definition continue_failure :: "Task \<Rightarrow> string \<Rightarrow> ToolResponse" where
  "continue_failure task error_message =
     \<lparr>success = False, data = JUndefined, error = Some error_message, toolId = ''continue'',
      metadata = [(''taskType'', JStr (task_type task)), (''errorType'', JStr ''Error'')]\<rparr>"

text \<open>
  The message of the error a handler of the Continue connector throws before it runs
  its command, if it throws one: the feature the task needs is switched off, or there
  is no active editor.
\<close>

definition guard_failure :: "vscode \<Rightarrow> ContinueConfig \<Rightarrow> Task \<Rightarrow> string option" where
  "guard_failure v cfg task =
     (if task_type task = ''completion'' then
        (if \<not> enableCompletion cfg then Some ''Completion not enabled for Continue''
         else if activeTextEditor v = None then Some ''No active editor for completion''
         else None)
      else if task_type task = ''planning'' then
        (if \<not> enableChat cfg then Some ''Chat not enabled for Continue'' else None)
      else if task_type task = ''refactoring'' then
        (if \<not> enableEdit cfg then Some ''Edit not enabled for Continue''
         else if activeTextEditor v = None then Some ''No active editor for refactoring''
         else None)
      else None)"

definition vscode_failing :: vscode where
  "vscode_failing = vscode_ready\<lparr>command_result := (\<lambda>n. Fails ''Continue is overloaded'')\<rparr>"

definition continue_connected :: ContinueConnector where
  "continue_connected =
     \<lparr>extension = Some \<lparr>isActive = True\<rparr>, isInitialized = True,
      continue_config = default_continue_config\<rparr>"

section \<open>The router\<close>

text \<open>
  Modelled from the spec: the Adaptive Task Router (\<^verbatim>\<open>AdaptiveTaskRouter\<close>, which
  \<^verbatim>\<open>HybridTaskRouter\<close> extends) is not among the sources; only the sketch of
  \<^verbatim>\<open>HybridTaskRouter.routeTask\<close> is, and it delegates every decision to methods that
  are missing.  The provider, the task and the plan follow section 3 of the
  specification, \<open>route\<close> follows the five steps of its section 4.5.
\<close>

datatype health_state = Unknown | Healthy | Degraded | Unavailable

text \<open>
  Modelled from the spec: a provider of the registry (section 3), with the fields the
  router reads: its id, its probed capability set, its health state and its rolling
  latency.  The registry itself is missing from the sources.
\<close>

record Provider =
  provider_id :: string
  probed :: "string list"
  health :: health_state
  latency :: nat

text \<open>
  Modelled from the spec: the task as the router sees it (section 3): its id, its type
  and its required capabilities.
\<close>

record RoutedTask =
  routed_id :: string
  taskType :: string
  requiredCapabilities :: "string list"

text \<open>
  Modelled from the spec: the routing plan (section 3); the rationale string is left out.
\<close>

record RoutingPlan =
  plan_task :: string
  primary :: string
  supporting :: "string list"
  fallback_chain :: "string list"
  plan_degraded :: bool

text \<open>Modelled from the spec: the failure of step 5 (section 7).\<close>

datatype routing_error = NoCapableProviderError

text \<open>
  Modelled from the spec: the parameters of routing that the specification leaves
  open.  \<open>score\<close> is the weighted sum of step 2 (capability fit, preference weight,
  performance record and health bonus), a number for each provider once the task, the
  preferences and the performance history are fixed; \<open>complementary\<close> marks the providers
  whose role is parallel-worthy, \<open>max_parallelism\<close> bounds the supporting providers,
  and \<open>generic\<close> is the generic capability of step 5.
\<close>

record routing =
  score :: "Provider \<Rightarrow> int"
  complementary :: "Provider \<Rightarrow> bool"
  max_parallelism :: nat
  generic :: string

text \<open>
  Modelled from the spec: step 1, the health states a routed provider may have
  (healthy or degraded, not unavailable or unknown).
\<close>

definition usable :: "Provider \<Rightarrow> bool" where
  "usable p \<longleftrightarrow> health p = Healthy \<or> health p = Degraded"

text \<open>
  Modelled from the spec: step 1, continued: the usable providers whose probed
  capabilities cover the required ones.
\<close>

definition candidates :: "RoutedTask \<Rightarrow> Provider list \<Rightarrow> Provider list" where
  "candidates task providers =
     filter (\<lambda>p. usable p \<and> set (requiredCapabilities task) \<subseteq> set (probed p)) providers"

text \<open>
  Modelled from the spec: step 3, descending by score, ties broken by lowest latency,
  then by provider id.
\<close>

definition rank_key :: "routing \<Rightarrow> Provider \<Rightarrow> int \<times> nat \<times> string" where
  "rank_key r p = (- score r p, latency p, provider_id p)"

text \<open>Modelled from the spec: step 3, the candidates sorted by that key.\<close>

definition rank :: "routing \<Rightarrow> Provider list \<Rightarrow> Provider list" where
  "rank r providers = sort_key (rank_key r) providers"

text \<open>
  Modelled from the spec: step 4, the plan made of a ranked list that is not empty: the
  top candidate, then the first complementary ones up to the bound, then all the others
  in rank order.
\<close>

definition plan_of :: "routing \<Rightarrow> RoutedTask \<Rightarrow> bool \<Rightarrow> Provider list \<Rightarrow> routing_error + RoutingPlan" where
  "plan_of r task degraded_flag ranked =
     (case ranked of
        [] \<Rightarrow> Inl NoCapableProviderError
      | best # others \<Rightarrow>
          (let support = take (max_parallelism r) (filter (complementary r) others)
           in Inr \<lparr>plan_task = routed_id task,
                   primary = provider_id best,
                   supporting = map provider_id support,
                   fallback_chain = map provider_id (filter (\<lambda>p. p \<notin> set support) others),
                   plan_degraded = degraded_flag\<rparr>))"

text \<open>
  Modelled from the spec: \<open>route\<close>, with step 5: when no provider covers the required
  capabilities, the usable providers offering the generic capability are ranked instead
  and the plan is marked degraded; when there is none either, the caller fails.
\<close>

definition route :: "routing \<Rightarrow> RoutedTask \<Rightarrow> Provider list \<Rightarrow> routing_error + RoutingPlan" where
  "route r task providers =
     (if candidates task providers \<noteq> [] then plan_of r task False (rank r (candidates task providers))
      else plan_of r task True
             (rank r (filter (\<lambda>p. usable p \<and> generic r \<in> set (probed p)) providers)))"

text \<open>Modelled from the spec: provider \<open>A\<close> of the first scenario of section 8.\<close>

definition provider_A :: Provider where
  "provider_A = \<lparr>provider_id = ''A'', probed = [''completion''], health = Healthy, latency = 50\<rparr>"

text \<open>Modelled from the spec: provider \<open>B\<close> of that scenario.\<close>

definition provider_B :: Provider where
  "provider_B = \<lparr>provider_id = ''B'', probed = [''completion'', ''planning''], health = Healthy,
                 latency = 200\<rparr>"

text \<open>Modelled from the spec: provider \<open>C\<close> of that scenario.\<close>

definition provider_C :: Provider where
  "provider_C = \<lparr>provider_id = ''C'', probed = [''planning''], health = Unavailable, latency = 10\<rparr>"

text \<open>Modelled from the spec: a routing in which every provider has the same score.\<close>

definition equal_scores :: routing where
  "equal_scores = \<lparr>score = (\<lambda>p. 0), complementary = (\<lambda>p. False), max_parallelism = 2,
                   generic = ''general-purpose''\<rparr>"

text \<open>Modelled from the spec: the task of that scenario, requiring \<^verbatim>\<open>completion\<close>.\<close>

definition completion_task :: RoutedTask where
  "completion_task = \<lparr>routed_id = ''t1'', taskType = ''completion'',
                      requiredCapabilities = [''completion'']\<rparr>"

section \<open>Properties of the pending-request table\<close>

lemma table_inv_iff:
  "table_inv (c, w) \<longleftrightarrow>
     distinct (map fst (pendingRequests c)) \<and>
     (\<forall>(i, p) \<in> set (pendingRequests c). p = i \<and> 0 < i \<and> i \<le> requestId c) \<and>
     distinct (map promise_of (settled w)) \<and>
     (\<forall>x \<in> set (settled w). promise_of x \<le> requestId c \<and> promise_of x \<notin> fst ` set (pendingRequests c))"
  by (simp add: table_inv_def list_all_iff)

lemma set_update_fresh:
  "k \<notin> fst ` set al \<Longrightarrow> set (AList.update k v al) = insert (k, v) (set al)"
  by (induct al) auto

lemma inv_request_send:
  assumes "table_inv (c, w)" and "request_send rq c w = (r, c', w')"
  shows "table_inv (c', w')"
proof (cases "ws c = Some OPEN")
  case False
  with assms show ?thesis by (simp add: request_send_def)
next
  case True
  from assms(1) have fresh: "Suc (requestId c) \<notin> fst ` set (pendingRequests c)"
    by (fastforce simp: table_inv_iff)
  from True assms(2) have c': "c' = c\<lparr>requestId := Suc (requestId c),
      pendingRequests := AList.update (Suc (requestId c)) (Suc (requestId c)) (pendingRequests c)\<rparr>"
    and w': "settled w' = settled w"
    by (auto simp: request_send_def Let_def)
  show ?thesis
    using assms(1) fresh unfolding table_inv_iff c' w'
    by (auto simp: set_update_fresh AList.update_keys AList.dom_update)
qed

lemma set_delete: "set (AList.delete k al) = {x \<in> set al. fst x \<noteq> k}"
  by (induct al) auto

lemma inv_remove_one:
  assumes "table_inv (c, w)" and "map_of (pendingRequests c) i = Some p"
    and "promise_of s = p"
  shows "table_inv (c\<lparr>pendingRequests := AList.delete i (pendingRequests c)\<rparr>,
                    w\<lparr>settled := settled w @ [s]\<rparr>)"
proof -
  from assms(2) have mem: "(i, p) \<in> set (pendingRequests c)" by (rule map_of_SomeD)
  with assms(1) have pi: "p = i" and le: "i \<le> requestId c" by (auto simp: table_inv_iff)
  from assms(1) mem have notsettled: "i \<notin> promise_of ` set (settled w)"
    by (force simp: table_inv_iff)
  show ?thesis
    using assms(1) notsettled le unfolding table_inv_iff
    by (auto simp: set_delete AList.distinct_delete assms(3) pi)
qed

lemma inv_request_timer:
  assumes "table_inv (c, w)" and "request_timer i c = (c', ss)"
  shows "table_inv (c', w\<lparr>settled := settled w @ ss\<rparr>)"
proof (cases "map_of (pendingRequests c) i")
  case None
  with assms(2) have "c' = c" "ss = []" by (auto simp: request_timer_def)
  with assms(1) show ?thesis by (simp add: table_inv_def)
next
  case (Some p)
  with assms(2) have "c' = c\<lparr>pendingRequests := AList.delete i (pendingRequests c)\<rparr>"
    and "ss = [Rejected p (Error ''Request timeout'')]"
    by (auto simp: request_timer_def)
  then show ?thesis using inv_remove_one [OF assms(1) Some, of "Rejected p (Error ''Request timeout'')"] by simp
qed

lemma inv_handleMessage:
  assumes "table_inv (c, w)" and "handleMessage m c = (c', ss)"
  shows "table_inv (c', w\<lparr>settled := settled w @ ss\<rparr>)"
proof (cases "msg_id m \<noteq> 0 \<and> map_of (pendingRequests c) (msg_id m) \<noteq> None")
  case False
  with assms(2) have "c' = c" "ss = []" by (auto simp: handleMessage_def)
  with assms(1) show ?thesis by (simp add: table_inv_def)
next
  case True
  then obtain p where p: "map_of (pendingRequests c) (msg_id m) = Some p" by auto
  with True assms(2) have c': "c' = c\<lparr>pendingRequests := AList.delete (msg_id m) (pendingRequests c)\<rparr>"
    and ss: "ss = [case msg_error m of Some text \<Rightarrow> Rejected p (Error text) | None \<Rightarrow> Resolved p m]"
    by (auto simp: handleMessage_def)
  have "promise_of (case msg_error m of Some text \<Rightarrow> Rejected p (Error text) | None \<Rightarrow> Resolved p m) = p"
    by (simp split: option.split)
  from inv_remove_one [OF assms(1) p this] show ?thesis by (simp add: c' ss)
qed

lemma inv_rejectPendingRequests:
  assumes "table_inv (c, w)" and "rejectPendingRequests e c = (c', ss)"
  shows "table_inv (c', w\<lparr>settled := settled w @ ss\<rparr>)"
proof -
  from assms(2) have c': "c' = c\<lparr>pendingRequests := []\<rparr>"
    and ss: "ss = map (\<lambda>(i, pending). Rejected pending e) (pendingRequests c)"
    by (auto simp: rejectPendingRequests_def)
  have m: "map promise_of ss = map fst (pendingRequests c)"
    using assms(1) unfolding ss table_inv_iff by (auto simp: comp_def)
  have "set (map promise_of ss) = fst ` set (pendingRequests c)" unfolding m by simp
  then have s: "promise_of ` set ss = fst ` set (pendingRequests c)" by simp
  have le: "promise_of x \<le> requestId c" if "x \<in> set ss" for x
  proof -
    from that s have "promise_of x \<in> fst ` set (pendingRequests c)" by blast
    then obtain i p where "(i, p) \<in> set (pendingRequests c)" "promise_of x = i" by force
    with assms(1) show ?thesis by (auto simp: table_inv_iff)
  qed
  have disj: "promise_of ` set (settled w) \<inter> promise_of ` set ss = {}"
    using assms(1) unfolding s table_inv_iff by blast
  have d: "distinct (map promise_of ss)" using assms(1) unfolding m table_inv_iff by simp
  show ?thesis
    using assms(1) le disj d unfolding table_inv_iff c'
    by auto
qed

lemma inv_initialize_start:
  "table_inv (c, w) \<Longrightarrow> table_inv (initialize_start c w)"
  by (simp add: initialize_start_def table_inv_def)

lemma inv_socket_opens:
  "table_inv (c, w) \<Longrightarrow> table_inv (socket_opens c, w)"
  by (simp add: socket_opens_def table_inv_def)

lemma inv_onclose:
  assumes "table_inv (c, w)" and "onclose c = (c', ss)"
  shows "table_inv (c', w\<lparr>settled := settled w @ ss\<rparr>)"
proof -
  from assms(1) have "table_inv (c\<lparr>ws := map_option (\<lambda>s. CLOSED) (ws c)\<rparr>, w)"
    by (simp add: table_inv_def)
  then show ?thesis using assms(2) unfolding onclose_def by (rule inv_rejectPendingRequests)
qed

lemma close_unfold:
  "close c w =
     (fst (rejectPendingRequests (Error ''Client closing'') c)\<lparr>ws := None\<rparr>,
      w\<lparr>socket_closes := socket_closes w + (if ws c \<noteq> None then 1 else 0),
        settled := settled w @ snd (rejectPendingRequests (Error ''Client closing'') c)\<rparr>)"
  by (cases "ws c") (simp_all add: close_def rejectPendingRequests_def)

lemma inv_close:
  assumes "table_inv (c, w)" and "close c w = (c', w')"
  shows "table_inv (c', w')"
proof -
  obtain c2 ss where r: "rejectPendingRequests (Error ''Client closing'') c = (c2, ss)"
    by (cases "rejectPendingRequests (Error ''Client closing'') c") auto
  from inv_rejectPendingRequests [OF assms(1) r]
  have "table_inv (c2\<lparr>ws := None\<rparr>,
          w\<lparr>socket_closes := socket_closes w + (if ws c \<noteq> None then 1 else 0),
            settled := settled w @ ss\<rparr>)"
    by (simp add: table_inv_def)
  with assms(2) r show ?thesis by (simp add: close_unfold)
qed

lemma inv_step: "table_inv s \<Longrightarrow> table_inv (step s e)"
proof (cases s)
  case (Pair c w)
  assume inv: "table_inv s"
  show ?thesis
  proof (cases e)
    case DoInitialize
    with inv Pair show ?thesis by (simp add: inv_initialize_start)
  next
    case SocketOpens
    with inv Pair show ?thesis by (simp add: inv_socket_opens)
  next
    case (DoRequest rq)
    obtain r c' w' where "request_send rq c w = (r, c', w')" by (cases "request_send rq c w") auto
    with inv Pair DoRequest show ?thesis by (simp add: inv_request_send)
  next
    case (MessageArrives m)
    obtain c' ss where "handleMessage m c = (c', ss)" by (cases "handleMessage m c") auto
    with inv Pair MessageArrives show ?thesis by (simp add: inv_handleMessage)
  next
    case (TimerFires i)
    obtain c' ss where "request_timer i c = (c', ss)" by (cases "request_timer i c") auto
    with inv Pair TimerFires show ?thesis by (simp add: inv_request_timer)
  next
    case SocketCloses
    obtain c' ss where "onclose c = (c', ss)" by (cases "onclose c") auto
    with inv Pair SocketCloses show ?thesis by (simp add: inv_onclose)
  next
    case DoClose
    obtain c' w' where "close c w = (c', w')" by (cases "close c w") auto
    with inv Pair DoClose show ?thesis by (simp add: inv_close)
  qed
qed

lemma inv_run: "table_inv s \<Longrightarrow> table_inv (run s evs)"
  unfolding run_def by (induction evs arbitrary: s) (simp_all add: inv_step)

lemma inv_new: "table_inv (new_CustomMCPClient cfg, world0)"
  by (simp add: table_inv_def new_CustomMCPClient_def world0_def)

lemma request_send_fresh:
  assumes "table_inv (c, w)" and "ws c = Some OPEN"
  shows "case request_send rq c w of (r, c', w') \<Rightarrow>
           r = Inr (requestId c + 1) \<and> requestId c' = requestId c + 1 \<and>
           map_of (pendingRequests c') (requestId c + 1) = Some (requestId c + 1) \<and>
           requestId c + 1 \<notin> set (map fst (pendingRequests c)) \<and>
           requestId c + 1 \<notin> set (map promise_of (settled w))"
proof -
  from assms(1) have "Suc (requestId c) \<notin> fst ` set (pendingRequests c)"
    by (fastforce simp: table_inv_iff)
  moreover from assms(1) have "Suc (requestId c) \<notin> promise_of ` set (settled w)"
    by (fastforce simp: table_inv_iff)
  ultimately show ?thesis using assms(2)
    by (simp add: request_send_def Let_def AList.update_conv')
qed

lemma close_empties:
  assumes "table_inv (c, w)"
  shows "case close c w of (c', w') \<Rightarrow>
           pendingRequests c' = [] \<and> ws c' = None \<and>
           settled w' =
             settled w @ map (\<lambda>i. Rejected i (Error ''Client closing'')) (map fst (pendingRequests c))"
proof -
  from assms have "\<forall>x \<in> set (pendingRequests c). snd x = fst x" by (auto simp: table_inv_iff)
  then have "map (\<lambda>(i, pending). Rejected pending (Error ''Client closing'')) (pendingRequests c)
      = map (\<lambda>i. Rejected i (Error ''Client closing'')) (map fst (pendingRequests c))"
    by (auto simp: case_prod_beta)
  then show ?thesis by (simp add: close_unfold rejectPendingRequests_def)
qed

text \<open>
  Claim C10.  Every request that is sent is registered under a fresh id, the counter
  incremented by one; along every sequence of requests, arriving messages, request
  timers, socket closes and client closes, no promise is settled twice and a settled
  promise is no longer in the table; and \<^verbatim>\<open>close()\<close> leaves the table empty after
  rejecting every request that was in it with \<^verbatim>\<open>Client closing\<close>.
\<close>

theorem pending_table_invariant:
  "case run (new_CustomMCPClient cfg, world0) evs of (c, w) \<Rightarrow>
     table_inv (c, w) \<and>
     (ws c = Some OPEN \<longrightarrow>
        (case request_send rq c w of (r, c', w') \<Rightarrow>
           r = Inr (requestId c + 1) \<and> requestId c' = requestId c + 1 \<and>
           map_of (pendingRequests c') (requestId c + 1) = Some (requestId c + 1) \<and>
           requestId c + 1 \<notin> set (map fst (pendingRequests c)) \<and>
           requestId c + 1 \<notin> set (map promise_of (settled w)))) \<and>
     (case close c w of (c', w') \<Rightarrow>
        pendingRequests c' = [] \<and> ws c' = None \<and>
        settled w' =
          settled w @ map (\<lambda>i. Rejected i (Error ''Client closing'')) (map fst (pendingRequests c)) \<and>
        table_inv (c', w'))"
proof -
  obtain c w where run: "run (new_CustomMCPClient cfg, world0) evs = (c, w)"
    by (cases "run (new_CustomMCPClient cfg, world0) evs") auto
  have inv: "table_inv (c, w)" using inv_run [OF inv_new, of cfg evs] run by simp
  obtain c' w' where cl: "close c w = (c', w')" by (cases "close c w") auto
  have "table_inv (c', w')" using inv cl by (rule inv_close)
  moreover note close_empties [OF inv] request_send_fresh [OF inv, of rq] inv
  ultimately show ?thesis unfolding run using cl by simp
qed

lemma run_example:
  "run (new_CustomMCPClient ccfg, world0)
     [DoInitialize, SocketOpens, DoRequest ping, DoRequest ping, MessageArrives (pong 1),
      TimerFires 1, TimerFires 2, DoRequest ping] =
   (\<lparr>ws = Some OPEN, requestId = 3, pendingRequests = [(3, 3)], client_cfg = ccfg\<rparr>,
    \<lparr>sent = [\<lparr>jsonrpc = ''2.0'', out_id = 1, out_method = ''ping'', out_params = JObj []\<rparr>,
             \<lparr>jsonrpc = ''2.0'', out_id = 2, out_method = ''ping'', out_params = JObj []\<rparr>,
             \<lparr>jsonrpc = ''2.0'', out_id = 3, out_method = ''ping'', out_params = JObj []\<rparr>],
      settled = [Resolved 1 (pong 1), Rejected 2 (Error ''Request timeout'')],
      dialed = [''ws://localhost:3003''], slept = [], requested = [], readings = 0,
      socket_closes = 0\<rparr>)"
  by (simp add: run_def new_CustomMCPClient_def world0_def initialize_start_def socket_opens_def
      request_send_def handleMessage_def request_timer_def ping_def pong_def ccfg_def wsUrl_def Let_def)

theorem pending_table_invariant_witness:
  "case run (new_CustomMCPClient ccfg, world0)
          [DoInitialize, SocketOpens, DoRequest ping, DoRequest ping, MessageArrives (pong 1),
           TimerFires 1, TimerFires 2, DoRequest ping] of (c, w) \<Rightarrow>
     ws c = Some OPEN \<and> pendingRequests c = [(3, 3)] \<and>
     map promise_of (settled w) = [1, 2] \<and> table_inv (c, w) \<and>
     fst (request_send ping c w) = Inr 4 \<and>
     pendingRequests (fst (close c w)) = [] \<and>
     settled (snd (close c w)) = settled w @ [Rejected 3 (Error ''Client closing'')]"
  using pending_table_invariant [where cfg = ccfg and rq = ping and evs =
      "[DoInitialize, SocketOpens, DoRequest ping, DoRequest ping, MessageArrives (pong 1),
        TimerFires 1, TimerFires 2, DoRequest ping]"]
  unfolding run_example by (simp split: prod.splits)

section \<open>Properties of the connectors\<close>

lemma map_of_delete_other: "k \<noteq> p \<Longrightarrow> map_of (AList.delete k al) p = map_of al p"
  by (simp add: AList.delete_conv')

lemma handleMessage_keeps:
  assumes "map_of (pendingRequests c) p = Some p" and "handleMessage m c = (c', ss)"
  shows "p \<in> promise_of ` set ss \<or> map_of (pendingRequests c') p = Some p"
proof (cases "msg_id m \<noteq> 0 \<and> map_of (pendingRequests c) (msg_id m) \<noteq> None")
  case False
  with assms show ?thesis by (auto simp: handleMessage_def)
next
  case True
  then obtain q where q: "map_of (pendingRequests c) (msg_id m) = Some q" by auto
  show ?thesis
  proof (cases "msg_id m = p")
    case True
    with q assms(1) have "q = p" by simp
    with True q assms(2) \<open>msg_id m \<noteq> 0 \<and> _\<close> show ?thesis
      by (auto simp: handleMessage_def split: option.splits)
  next
    case False
    with q assms True show ?thesis
      by (auto simp: handleMessage_def map_of_delete_other split: option.splits)
  qed
qed

lemma rejectPendingRequests_settles:
  assumes "map_of (pendingRequests c) p = Some p" and "rejectPendingRequests e c = (c', ss)"
  shows "p \<in> promise_of ` set ss"
proof -
  from assms(1) have "(p, p) \<in> set (pendingRequests c)" by (rule map_of_SomeD)
  then have "Rejected p e \<in> set (map (\<lambda>(i, pending). Rejected pending e) (pendingRequests c))"
    by force
  with assms(2) have "Rejected p e \<in> set ss" by (auto simp: rejectPendingRequests_def)
  then show ?thesis by force
qed

lemma arrive_keeps:
  assumes "map_of (pendingRequests c) p = Some p" and "arrive a c = (c', ss)"
  shows "p \<in> promise_of ` set ss \<or> map_of (pendingRequests c') p = Some p"
proof (cases a)
  case (Message m)
  with assms show ?thesis using handleMessage_keeps by simp
next
  case Closed
  with assms(2) have "rejectPendingRequests (Error ''Connection closed'')
      (c\<lparr>ws := map_option (\<lambda>s. CLOSED) (ws c)\<rparr>) = (c', ss)"
    by (simp add: onclose_def)
  from rejectPendingRequests_settles [OF _ this, of p] assms(1) show ?thesis by simp
qed

lemma deliver_keeps:
  "map_of (pendingRequests c) p = Some p \<Longrightarrow> deliver as c = (c', ss) \<Longrightarrow>
     p \<in> promise_of ` set ss \<or> map_of (pendingRequests c') p = Some p"
proof (induction as arbitrary: c c' ss)
  case Nil
  then show ?case by simp
next
  case (Cons a as)
  obtain c1 s1 where a: "arrive a c = (c1, s1)" by (cases "arrive a c") auto
  obtain c2 s2 where d: "deliver as c1 = (c2, s2)" by (cases "deliver as c1") auto
  from Cons.prems(2) a d have eq: "c' = c2" "ss = s1 @ s2" by auto
  from arrive_keeps [OF Cons.prems(1) a] show ?case
  proof
    assume "p \<in> promise_of ` set s1"
    then show ?thesis by (auto simp: eq)
  next
    assume "map_of (pendingRequests c1) p = Some p"
    from Cons.IH [OF this d] show ?thesis by (auto simp: eq)
  qed
qed

lemma settlement_outcome_settled:
  "p \<in> promise_of ` set ss \<Longrightarrow> settlement_outcome p ss \<noteq> Hangs"
proof -
  assume "p \<in> promise_of ` set ss"
  then have "find (\<lambda>x. promise_of x = p) ss \<noteq> None" by (auto simp: find_None_iff)
  then show ?thesis by (auto simp: settlement_outcome_def split: option.splits settlement.splits)
qed

lemma request_not_Hangs: "fst (request env rq c w) \<noteq> Hangs"
proof (cases "ws c = Some OPEN")
  case False
  then show ?thesis by (simp add: request_def request_send_def)
next
  case True
  define p where "p = requestId c + 1"
  define c1 where "c1 = c\<lparr>requestId := p, pendingRequests := AList.update p p (pendingRequests c)\<rparr>"
  have reg: "map_of (pendingRequests c1) p = Some p" by (simp add: c1_def AList.update_conv')
  obtain c2 ss where d: "deliver (arrivals env (length (sent w))) c1 = (c2, ss)"
    by (cases "deliver (arrivals env (length (sent w))) c1") auto
  obtain c3 ts where t: "request_timer p c2 = (c3, ts)" by (cases "request_timer p c2") auto
  have "p \<in> promise_of ` set (ss @ ts)"
  proof (cases "p \<in> promise_of ` set ss")
    case True then show ?thesis by auto
  next
    case False
    with deliver_keeps [OF reg d] have "map_of (pendingRequests c2) p = Some p" by simp
    with t have "ts = [Rejected p (Error ''Request timeout'')]" by (simp add: request_timer_def)
    then show ?thesis by simp
  qed
  then have "settlement_outcome p (ss @ ts) \<noteq> Hangs" by (rule settlement_outcome_settled)
  with True d t show ?thesis
    by (simp add: request_def request_send_def Let_def p_def c1_def)
qed

lemma request_world:
  assumes "request env rq c w = (r, c', w')"
  shows "requested w' = requested w @ [rq]" and "slept w' = slept w"
    and "readings w' = readings w" and "dialed w' = dialed w"
    and "length (sent w') \<le> length (sent w) + 1"
    and "ws c \<noteq> Some OPEN \<Longrightarrow> sent w' = sent w"
  using assms
  by (auto simp: request_def request_send_def Let_def split: if_splits prod.splits)

lemma request_not_connected:
  "ws c \<noteq> Some OPEN \<Longrightarrow>
     request env rq c w =
       (Throws (Error ''MCP client not connected''), c, w\<lparr>requested := requested w @ [rq]\<rparr>)"
  by (simp add: request_def request_send_def)

lemma arrive_rejects_Error:
  "arrive a c = (c', ss) \<Longrightarrow> list_all rejects_Error ss"
  by (cases a)
     (auto simp: handleMessage_def onclose_def rejectPendingRequests_def rejects_Error_def
        list_all_iff split: if_splits option.splits)

lemma deliver_rejects_Error:
  "deliver as c = (c', ss) \<Longrightarrow> list_all rejects_Error ss"
proof (induction as arbitrary: c c' ss)
  case Nil
  then show ?case by simp
next
  case (Cons a as)
  obtain c1 s1 where a: "arrive a c = (c1, s1)" by (cases "arrive a c") auto
  obtain c2 s2 where d: "deliver as c1 = (c2, s2)" by (cases "deliver as c1") auto
  from Cons.prems a d have "ss = s1 @ s2" by auto
  with arrive_rejects_Error [OF a] Cons.IH [OF d] show ?case by simp
qed

lemma request_timer_rejects_Error:
  "request_timer p c = (c', ts) \<Longrightarrow> list_all rejects_Error ts"
  by (auto simp: request_timer_def rejects_Error_def split: option.splits)

lemma settlement_outcome_Error:
  assumes "list_all rejects_Error ss" and "settlement_outcome p ss = Throws e"
  shows "\<exists>t. e = Error t"
proof -
  from assms(2) obtain q where f: "find (\<lambda>x. promise_of x = p) ss = Some (Rejected q e)"
    by (auto simp: settlement_outcome_def split: option.splits settlement.splits)
  then have "Rejected q e \<in> set ss" by (auto simp: find_Some_iff in_set_conv_nth)
  with assms(1) have "rejects_Error (Rejected q e)" by (simp add: list_all_iff)
  then show ?thesis by (cases e) (simp_all add: rejects_Error_def)
qed

lemma request_throws_Error:
  assumes "request env rq c w = (Throws e, c', w')"
  shows "\<exists>t. e = Error t"
proof (cases "ws c = Some OPEN")
  case False
  with assms show ?thesis by (auto simp: request_def request_send_def)
next
  case True
  define p where "p = requestId c + 1"
  define c1 where "c1 = c\<lparr>requestId := p, pendingRequests := AList.update p p (pendingRequests c)\<rparr>"
  obtain c2 ss where d: "deliver (arrivals env (length (sent w))) c1 = (c2, ss)"
    by (cases "deliver (arrivals env (length (sent w))) c1") auto
  obtain c3 ts where t: "request_timer p c2 = (c3, ts)" by (cases "request_timer p c2") auto
  from deliver_rejects_Error [OF d] request_timer_rejects_Error [OF t]
  have "list_all rejects_Error (ss @ ts)" by simp
  moreover from True d t assms have "settlement_outcome p (ss @ ts) = Throws e"
    by (simp add: request_def request_send_def Let_def p_def c1_def)
  ultimately show ?thesis by (rule settlement_outcome_Error)
qed

declare executeWithRetry_loop.simps [simp del]

lemma loop_exit:
  "\<not> int a \<le> M \<Longrightarrow> executeWithRetry_loop env M rq a lastErr c w = (throw_lastError lastErr, c, w)"
  by (subst executeWithRetry_loop.simps) simp

lemma loop_Returns:
  assumes "int a \<le> M" and "request env rq c (snd (Date_now env w)) = (Returns m, c2, w2)"
  shows "executeWithRetry_loop env M rq a lastErr c w =
     (Returns \<lparr>response = m, executionTime = fst (Date_now env w2) - fst (Date_now env w),
               attempt_number = a + 1\<rparr>, c2, snd (Date_now env w2))"
  using assms by (subst executeWithRetry_loop.simps) (simp add: split_beta)

lemma loop_Throws:
  assumes "int a \<le> M" and "request env rq c (snd (Date_now env w)) = (Throws e, c2, w2)"
  shows "executeWithRetry_loop env M rq a lastErr c w =
     (if int a < M then
        (case message_of e of
           Inl type_error \<Rightarrow> (Throws type_error, c2, w2)
         | Inr text \<Rightarrow>
             if isRetryableError text then
               executeWithRetry_loop env M rq (a + 1) (Some e) c2
                 (w2\<lparr>slept := slept w2 @ [2 ^ a * 1000]\<rparr>)
             else (Throws e, c2, w2))
      else (Throws e, c2, w2))"
  using assms by (subst executeWithRetry_loop.simps) (simp add: split_beta split: sum.split)

lemma Date_now_world:
  "requested (snd (Date_now env w)) = requested w"
  "slept (snd (Date_now env w)) = slept w"
  "sent (snd (Date_now env w)) = sent w"
  "dialed (snd (Date_now env w)) = dialed w"
  "settled (snd (Date_now env w)) = settled w"
  by (simp_all add: Date_now_def)

lemma backoffs_Suc: "2 ^ a * 1000 # backoffs (Suc a) n = backoffs a (Suc n)"
  by (simp add: backoffs_def upt_conv_Cons del: upt_Suc)

lemma loop_trace:
  "executeWithRetry_loop env M rq a lastErr c w = (r, c', w') \<Longrightarrow> int a \<le> M \<Longrightarrow>
     r \<noteq> Hangs \<and> (\<forall>e. r = Throws e \<longrightarrow> (\<exists>t. e = Error t)) \<and>
     (\<exists>n. requested w' = requested w @ replicate (Suc n) rq \<and> int a + int n \<le> M \<and>
          slept w' = slept w @ backoffs a n)"
proof (induction "nat (M - int a)" arbitrary: a lastErr c w)
  case 0
  then have aM: "int a = M" by simp
  obtain o1 c2 w2 where rq: "request env rq c (snd (Date_now env w)) = (o1, c2, w2)"
    by (cases "request env rq c (snd (Date_now env w))") auto
  note rw = request_world [OF rq] Date_now_world
  from request_not_Hangs [of env rq c "snd (Date_now env w)"] rq have nh: "o1 \<noteq> Hangs" by simp
  have er: "\<exists>t. e = Error t" if "o1 = Throws e" for e
    using request_throws_Error [of env rq c "snd (Date_now env w)" e c2 w2] rq that by simp
  show ?case
  proof (cases o1)
    case (Returns m)
    with 0 rq rw show ?thesis
      by (auto simp: loop_Returns Date_now_world backoffs_def intro!: exI [of _ 0])
  next
    case (Throws e)
    with 0 rq rw aM er [of e] show ?thesis
      by (auto simp: loop_Throws backoffs_def intro!: exI [of _ 0])
  next
    case Hangs
    with nh show ?thesis by simp
  qed
next
  case (Suc k)
  then have aM: "int a < M" by simp
  obtain o1 c2 w2 where rq: "request env rq c (snd (Date_now env w)) = (o1, c2, w2)"
    by (cases "request env rq c (snd (Date_now env w))") auto
  note rw = request_world [OF rq] Date_now_world
  from request_not_Hangs [of env rq c "snd (Date_now env w)"] rq have nh: "o1 \<noteq> Hangs" by simp
  have er: "\<exists>t. e = Error t" if "o1 = Throws e" for e
    using request_throws_Error [of env rq c "snd (Date_now env w)" e c2 w2] rq that by simp
  show ?case
  proof (cases o1)
    case (Returns m)
    with Suc.prems rq rw show ?thesis
      by (auto simp: loop_Returns Date_now_world backoffs_def intro!: exI [of _ 0])
  next
    case Hangs
    with nh show ?thesis by simp
  next
    case (Throws e)
    show ?thesis
    proof (cases "message_of e")
      case (Inl te)
      with Throws Suc.prems rq rw aM er [of e] show ?thesis
        by (auto simp: loop_Throws backoffs_def intro!: exI [of _ 0])
    next
      case (Inr msg)
      show ?thesis
      proof (cases "isRetryableError msg")
        case False
        with Inr Throws Suc.prems rq rw aM er [of e] show ?thesis
          by (auto simp: loop_Throws backoffs_def intro!: exI [of _ 0])
      next
        case True
        let ?w3 = "w2\<lparr>slept := slept w2 @ [2 ^ a * 1000]\<rparr>"
        from True Inr Throws Suc.prems rq aM
        have rec: "executeWithRetry_loop env M rq (a + 1) (Some e) c2 ?w3 = (r, c', w')"
          by (simp add: loop_Throws)
        have k: "k = nat (M - int (a + 1))" using Suc.hyps(2) by simp
        from aM have le: "int (a + 1) \<le> M" by simp
        from Suc.hyps(1) [OF k rec le] obtain n where
          n: "r \<noteq> Hangs" "\<forall>e. r = Throws e \<longrightarrow> (\<exists>t. e = Error t)" "requested w' = requested ?w3 @ replicate (Suc n) rq"
            "int (a + 1) + int n \<le> M" "slept w' = slept ?w3 @ backoffs (a + 1) n"
          by blast
        have "requested w' = requested w @ replicate (Suc (Suc n)) rq"
          using n(3) rw by (simp add: replicate_app_Cons_same)
        moreover have "slept w' = slept w @ backoffs a (Suc n)"
          using n(5) rw by (simp add: backoffs_Suc)
        moreover have "int a + int (Suc n) \<le> M" using n(4) by simp
        ultimately show ?thesis using n(1) n(2) by blast
      qed
    qed
  qed
qed

lemma timeout_is_retryable: "isRetryableError ''Request timeout''"
  by (simp add: isRetryableError_def retryablePatterns_def test_i_def to_lower_def)

lemma unavailable_is_retryable: "isRetryableError ''Server temporarily unavailable'' \<and>
   \<not> claimed_retryable ''Server temporarily unavailable''"
  by (simp add: isRetryableError_def retryablePatterns_def test_i_def to_lower_def claimed_retryable_def)

lemma silent_run:
  "executeWithRetry env_silent default_config open_client ping world0 =
     (Throws (Error ''Request timeout''), open_client\<lparr>requestId := 4\<rparr>,
      world0\<lparr>sent := map (\<lambda>i. \<lparr>jsonrpc = ''2.0'', out_id = i, out_method = ''ping'', out_params = JObj []\<rparr>) [1, 2, 3, 4],
             settled := map (\<lambda>i. Rejected i (Error ''Request timeout'')) [1, 2, 3, 4],
             slept := [1000, 2000, 4000],
             requested := [ping, ping, ping, ping],
             readings := 4\<rparr>)"
  by (simp add: executeWithRetry_def default_config_def createCustomMCPConfig_def no_options_def
      num_or_def executeWithRetry_loop.simps Date_now_def request_def request_send_def Let_def
      env_silent_def request_timer_def settlement_outcome_def open_client_def ping_def world0_def timeout_is_retryable)

lemma initialize_not_Hangs: "fst (initialize env c w) \<noteq> Hangs"
  by (simp add: initialize_def initialize_start_def split: dial_outcome.split prod.split)

lemma listTools_not_Hangs: "fst (listTools env c w) \<noteq> Hangs"
  using request_not_Hangs [of env "\<lparr>rq_method = ''tools/list'', rq_params = JObj []\<rparr>" c w]
  by (auto simp: listTools_def split: prod.split outcome.split sum.split)

lemma connect_connected: "client k = Some c \<Longrightarrow> connect env k w = (Returns c, k, w)"
  by (simp add: connect_def)

lemma connect_not_Hangs: "fst (connect env k w) \<noteq> Hangs"
proof (cases "client k")
  case (Some c)
  then show ?thesis by (simp add: connect_def)
next
  case None
  let ?c0 = "new_CustomMCPClient
     \<lparr>cc_endpoint = endpoint (config k), cc_apiKey = apiKey (config k),
      cc_timeout = num_or (timeout (config k)) 30000\<rparr>"
  obtain o1 c1 w1 where i: "initialize env ?c0 w = (o1, c1, w1)"
    by (cases "initialize env ?c0 w") auto
  obtain o2 c2 w2 where l: "listTools env c1 w1 = (o2, c2, w2)"
    by (cases "listTools env c1 w1") auto
  from initialize_not_Hangs [of env ?c0 w] i have "o1 \<noteq> Hangs" by simp
  moreover from listTools_not_Hangs [of env c1 w1] l have "o2 \<noteq> Hangs" by simp
  ultimately show ?thesis using None i l
    by (cases o1; cases o2) (simp_all add: connect_def)
qed

lemma connect_config: "connect env k w = (r, k1, w1) \<Longrightarrow> config k1 = config k"
  by (auto simp: connect_def split: option.splits prod.splits outcome.splits)

lemma connect_Returns_client: "connect env k w = (Returns c, k1, w1) \<Longrightarrow> client k1 = Some c"
  by (auto simp: connect_def split: option.splits prod.splits outcome.splits)

lemma executeWithRetry_trace:
  assumes "executeWithRetry env cfg c rq w = (r, c', w')" and "0 \<le> num_or (retryAttempts cfg) 3"
  shows "r \<noteq> Hangs" and "\<forall>e. r = Throws e \<longrightarrow> (\<exists>t. e = Error t)"
    and "\<exists>n. requested w' = requested w @ replicate (Suc n) rq \<and>
             int n \<le> num_or (retryAttempts cfg) 3 \<and> slept w' = slept w @ backoffs 0 n"
  using loop_trace [of env "num_or (retryAttempts cfg) 3" rq 0 None c w r c' w'] assms
  by (auto simp: executeWithRetry_def)

lemma named_name: "named t \<Longrightarrow> \<exists>n. own_property ''name'' t = JStr n \<and> get_property t ''name'' = Inr (JStr n)"
  by (cases t) (auto split: option.splits jsval.splits)

lemma find_tool_named:
  "list_all named tools \<Longrightarrow>
     find_tool toolName tools = Inr (find (\<lambda>t. own_property ''name'' t = toolName) tools)"
proof (induction tools)
  case Nil
  then show ?case by simp
next
  case (Cons t tools)
  then obtain n where n: "own_property ''name'' t = JStr n" "get_property t ''name'' = Inr (JStr n)"
    using named_name [of t] by auto
  with Cons show ?case by auto
qed

lemma find_tool_TypeError: "find_tool toolName tools = Inl e \<Longrightarrow> \<exists>m. e = TypeError m"
proof (induction tools)
  case Nil
  then show ?case by simp
next
  case (Cons t tools)
  then show ?case by (cases t) (auto split: if_splits)
qed

lemma mapTaskToMCPTool_TypeError:
  "mapTaskToMCPTool tools task = Inl e \<Longrightarrow> \<exists>m. e = TypeError m"
  by (cases tools)
     (auto simp: mapTaskToMCPTool_def Let_def dest: find_tool_TypeError
        split: sum.splits option.splits if_splits)

lemma mapTaskToMCPTool_truthy:
  "mapTaskToMCPTool tools task = Inr (Some tool) \<Longrightarrow> truthy tool"
  by (cases tools)
     (auto simp: mapTaskToMCPTool_def Let_def split: sum.splits option.splits if_splits)

lemma unsupported_null:
  assumes "list_all named tools" and "\<not> supports tools (task_type task)"
  shows "mapTaskToMCPTool (JArr tools) task = Inr None"
proof -
  let ?tn = "taskToToolMap_at (task_type task)"
  have "find (\<lambda>t. own_property ''name'' t = ?tn) tools = None"
  proof (cases "map_of taskToToolMap (task_type task)")
    case (Some n)
    with assms(2) show ?thesis
      by (auto simp: taskToToolMap_at_def supports_def find_None_iff list_ex_iff)
  next
    case None
    have "own_property ''name'' t \<noteq> ?tn" if "t \<in> set tools" for t
    proof -
      from that assms(1) have "named t" by (simp add: list_all_iff)
      then obtain n where "own_property ''name'' t = JStr n" using named_name by blast
      with None show ?thesis by (simp add: taskToToolMap_at_def)
    qed
    then show ?thesis by (auto simp: find_None_iff)
  qed
  with find_tool_named [OF assms(1), of ?tn] show ?thesis
    by (simp add: mapTaskToMCPTool_def)
qed

lemma invoke_catch_Error:
  "invoke_catch cfg (Error t) = Returns (mcp_failure cfg t ''Error'')"
  by (simp add: invoke_catch_def mcp_failure_def)

lemma invoke_catch_TypeError:
  "invoke_catch cfg (TypeError t) = Returns (mcp_failure cfg t ''TypeError'')"
  by (simp add: invoke_catch_def mcp_failure_def)

text \<open>What the code does with a tool that has no name, and with tools that are no array.\<close>

lemma nameless_tool_is_selected:
  "mapTaskToMCPTool (JArr [nameless_tool]) task =
     (if taskToToolMap_at (task_type task) = JUndefined then Inr (Some nameless_tool) else Inr None)"
  by (simp add: mapTaskToMCPTool_def nameless_tool_def Let_def taskToToolMap_at_def
      split: option.split)

lemma undefined_tools_throw:
  "mapTaskToMCPTool JUndefined task =
     Inl (TypeError ''Cannot read properties of undefined (reading 'find')'')"
  by (simp add: mapTaskToMCPTool_def)

lemma invoke_after_connect:
  assumes con: "connect env k w = (Returns c, k1, w1)"
  shows "invoke env task ctx k w =
     (case mapTaskToMCPTool (availableTools k1) task of
        Inl e \<Rightarrow> (invoke_catch (config k) e, k1, w1)
      | Inr None \<Rightarrow>
          (Returns (mcp_failure (config k)
             (''No MCP tool available for task type: '' @ task_type task) ''Error''), k1, w1)
      | Inr (Some mcpTool) \<Rightarrow>
          (case executeWithRetry env (config k) c (mcpRequest mcpTool task ctx) w1 of
             (Returns r, c2, w2) \<Rightarrow> (Returns (mcp_success mcpTool r), k1\<lparr>client := Some c2\<rparr>, w2)
           | (Throws e, c2, w2) \<Rightarrow> (invoke_catch (config k) e, k1\<lparr>client := Some c2\<rparr>, w2)
           | (Hangs, c2, w2) \<Rightarrow> (Hangs, k1\<lparr>client := Some c2\<rparr>, w2)))"
  using con connect_config [OF con]
  by (simp add: invoke_def invoke_catch_Error mcp_success_def
      split: sum.split option.split prod.split outcome.split)

lemma silent_retries:
  "executeWithRetry env_silent default_config open_client rq world0 =
     (Throws (Error ''Request timeout''), open_client\<lparr>requestId := 4\<rparr>,
      world0\<lparr>sent := map (\<lambda>i. \<lparr>jsonrpc = ''2.0'', out_id = i, out_method = rq_method rq,
                                  out_params = rq_params rq\<rparr>) [1, 2, 3, 4],
             settled := map (\<lambda>i. Rejected i (Error ''Request timeout'')) [1, 2, 3, 4],
             slept := [1000, 2000, 4000],
             requested := [rq, rq, rq, rq],
             readings := 4\<rparr>)"
  by (simp add: executeWithRetry_def default_config_def createCustomMCPConfig_def no_options_def
      num_or_def executeWithRetry_loop.simps Date_now_def request_def request_send_def Let_def
      env_silent_def request_timer_def settlement_outcome_def open_client_def world0_def
      timeout_is_retryable)

lemma first_failure_surfaces:
  assumes "request env rq c (snd (Date_now env w)) = (Throws (Error m), c2, w2)"
    and "\<not> isRetryableError m" and "0 \<le> num_or (retryAttempts cfg) 3"
  shows "executeWithRetry env cfg c rq w = (Throws (Error m), c2, w2)"
proof -
  from assms(3) have "int 0 \<le> num_or (retryAttempts cfg) 3" by simp
  from loop_Throws [OF this assms(1), of None] assms(2) show ?thesis
    by (simp add: executeWithRetry_def)
qed

lemma invoke_in_band:
  assumes con: "connect env k w = (Returns c, k1, w1)"
    and M: "0 \<le> num_or (retryAttempts (config k)) 3"
  shows "(\<exists>resp k' w'. invoke env task ctx k w = (Returns resp, k', w') \<and>
            toolId resp = ''custom-mcp'' \<and> (success resp \<longleftrightarrow> error resp = None)) \<and>
         (\<forall>e. mapTaskToMCPTool (availableTools k1) task = Inl e \<longrightarrow>
            (\<exists>m. e = TypeError m \<and>
                 invoke env task ctx k w =
                   (Returns (mcp_failure (config k) m ''TypeError''), k1, w1))) \<and>
         (mapTaskToMCPTool (availableTools k1) task = Inr None \<longrightarrow>
            invoke env task ctx k w =
              (Returns (mcp_failure (config k)
                 (''No MCP tool available for task type: '' @ task_type task) ''Error''), k1, w1)) \<and>
         (\<forall>tool r c2 w2.
            mapTaskToMCPTool (availableTools k1) task = Inr (Some tool) \<and>
            executeWithRetry env (config k) c (mcpRequest tool task ctx) w1 = (r, c2, w2) \<longrightarrow>
            (case r of
               Returns res \<Rightarrow>
                 invoke env task ctx k w =
                   (Returns (mcp_success tool res), k1\<lparr>client := Some c2\<rparr>, w2)
             | Throws e \<Rightarrow>
                 (\<exists>m. e = Error m \<and>
                      invoke env task ctx k w =
                        (Returns (mcp_failure (config k) m ''Error''), k1\<lparr>client := Some c2\<rparr>, w2))
             | Hangs \<Rightarrow> False)) \<and>
         (\<forall>tool m c2 w2.
            mapTaskToMCPTool (availableTools k1) task = Inr (Some tool) \<and>
            request env (mcpRequest tool task ctx) c (snd (Date_now env w1)) =
              (Throws (Error m), c2, w2) \<and>
            \<not> isRetryableError m \<longrightarrow>
            invoke env task ctx k w =
              (Returns (mcp_failure (config k) m ''Error''), k1\<lparr>client := Some c2\<rparr>, w2))"
proof -
  note inv = invoke_after_connect [OF con, of task ctx]
  have thrown: "\<exists>m. e = TypeError m \<and>
      invoke env task ctx k w = (Returns (mcp_failure (config k) m ''TypeError''), k1, w1)"
    if "mapTaskToMCPTool (availableTools k1) task = Inl e" for e
  proof -
    from mapTaskToMCPTool_TypeError [OF that] obtain m where "e = TypeError m" by blast
    with that inv show ?thesis by (simp add: invoke_catch_TypeError)
  qed
  have none: "invoke env task ctx k w =
      (Returns (mcp_failure (config k)
         (''No MCP tool available for task type: '' @ task_type task) ''Error''), k1, w1)"
    if "mapTaskToMCPTool (availableTools k1) task = Inr None"
    using that inv by simp
  have some: "case r of
       Returns res \<Rightarrow>
         invoke env task ctx k w = (Returns (mcp_success tool res), k1\<lparr>client := Some c2\<rparr>, w2)
     | Throws e \<Rightarrow>
         (\<exists>m. e = Error m \<and>
              invoke env task ctx k w =
                (Returns (mcp_failure (config k) m ''Error''), k1\<lparr>client := Some c2\<rparr>, w2))
     | Hangs \<Rightarrow> False"
    if t: "mapTaskToMCPTool (availableTools k1) task = Inr (Some tool)"
      and ex: "executeWithRetry env (config k) c (mcpRequest tool task ctx) w1 = (r, c2, w2)"
    for tool r c2 w2
  proof (cases r)
    case (Returns res)
    with t ex inv show ?thesis by simp
  next
    case (Throws e)
    with executeWithRetry_trace(2) [OF ex M] obtain m where "e = Error m" by auto
    with Throws t ex inv show ?thesis by (simp add: invoke_catch_Error)
  next
    case Hangs
    with executeWithRetry_trace(1) [OF ex M] show ?thesis by simp
  qed
  have first: "invoke env task ctx k w =
      (Returns (mcp_failure (config k) m ''Error''), k1\<lparr>client := Some c2\<rparr>, w2)"
    if t: "mapTaskToMCPTool (availableTools k1) task = Inr (Some tool)"
      and rq: "request env (mcpRequest tool task ctx) c (snd (Date_now env w1)) =
                 (Throws (Error m), c2, w2)"
      and nr: "\<not> isRetryableError m"
    for tool m c2 w2
    using some [OF t first_failure_surfaces [OF rq nr M]] by simp
  have returns: "\<exists>resp k' w'. invoke env task ctx k w = (Returns resp, k', w') \<and>
            toolId resp = ''custom-mcp'' \<and> (success resp \<longleftrightarrow> error resp = None)"
  proof (cases "mapTaskToMCPTool (availableTools k1) task")
    case (Inl e)
    from thrown [OF Inl] show ?thesis by (auto simp: mcp_failure_def)
  next
    case (Inr found)
    show ?thesis
    proof (cases found)
      case None
      with Inr none show ?thesis by (simp add: mcp_failure_def)
    next
      case (Some tool)
      obtain r c2 w2 where
        ex: "executeWithRetry env (config k) c (mcpRequest tool task ctx) w1 = (r, c2, w2)"
        by (cases "executeWithRetry env (config k) c (mcpRequest tool task ctx) w1") auto
      from Some Inr have t: "mapTaskToMCPTool (availableTools k1) task = Inr (Some tool)" by simp
      from some [OF t ex] show ?thesis
        by (cases r) (auto simp: mcp_failure_def mcp_success_def)
    qed
  qed
  from returns thrown none some first show ?thesis by blast
qed

lemma Continue_invoke_in_band:
  assumes "Continue_connect v kc = (Returns u, kc1, v1)"
  shows "case guard_failure v1 (continue_config kc1) task of
           Some m \<Rightarrow> Continue_invoke v task ctx kc = (Returns (continue_failure task m), kc1, v1)
         | None \<Rightarrow>
             (case command_result v1 (length (executed v1)) of
                Fails m \<Rightarrow> fst (Continue_invoke v task ctx kc) = Returns (continue_failure task m)
              | Completes res \<Rightarrow>
                  (\<exists>resp. fst (Continue_invoke v task ctx kc) = Returns resp \<and>
                     success resp \<and> error resp = None \<and> toolId resp = ''continue'')
              | NeverSettles \<Rightarrow> fst (Continue_invoke v task ctx kc) = Hangs)"
  using assms
  by (auto simp: Continue_invoke_def guard_failure_def continue_failure_def
      Continue_invoke_catch_def handleCompletion_def handlePlanning_def handleRefactoring_def
      handleAnalysis_def handleGenericTask_def executeCommand_def Let_def
      split: option.splits command_outcome.splits)

lemma backoffs_default: "n \<le> 3 \<Longrightarrow> backoffs 0 n = take n [1000, 2000, 4000]"
proof -
  assume "n \<le> 3"
  then consider "n = 0" | "n = 1" | "n = 2" | "n = 3" by linarith
  then show ?thesis by cases (simp_all add: backoffs_def upt_rec)
qed

text \<open>
  Claim C3, as amended.  A connector configured by \<^verbatim>\<open>createCustomMCPConfig\<close> without
  \<^verbatim>\<open>retryAttempts\<close> makes at most three retries (four attempts) of a request, sleeping
  1000, 2000 and 4000 milliseconds before the first, second and third retry, and then
  returns or throws; it never stays pending.
\<close>

theorem default_retries_at_most_three:
  assumes "opt_retryAttempts options = None"
    and "executeWithRetry env (createCustomMCPConfig key options) c rq w = (r, c', w')"
  shows "r \<noteq> Hangs \<and>
         (\<exists>n\<le>3. requested w' = requested w @ replicate (Suc n) rq \<and>
                 slept w' = slept w @ take n [1000, 2000, 4000])"
proof -
  have M: "num_or (retryAttempts (createCustomMCPConfig key options)) 3 = 3"
    using assms(1) by (simp add: createCustomMCPConfig_def num_or_def)
  then have "0 \<le> num_or (retryAttempts (createCustomMCPConfig key options)) 3" by simp
  from executeWithRetry_trace [OF assms(2) this] M obtain n where
    n: "requested w' = requested w @ replicate (Suc n) rq" "n \<le> 3" "slept w' = slept w @ backoffs 0 n"
    and nh: "r \<noteq> Hangs"
    by auto
  with backoffs_default [OF n(2)] show ?thesis by auto
qed

text \<open>With a provider that never answers, all three retries are made.\<close>

theorem default_retries_at_most_three_witness:
  "opt_retryAttempts no_options = None \<and>
   (case executeWithRetry env_silent (createCustomMCPConfig None no_options) open_client ping world0 of
      (r, c', w') \<Rightarrow>
        r = Throws (Error ''Request timeout'') \<and>
        (\<exists>n\<le>3. requested w' = requested world0 @ replicate (Suc n) ping \<and>
                slept w' = slept world0 @ take n [1000, 2000, 4000]))"
proof -
  have h: "opt_retryAttempts no_options = None" by (simp add: no_options_def)
  obtain r c' w' where
    e: "executeWithRetry env_silent (createCustomMCPConfig None no_options) open_client ping world0 = (r, c', w')"
    by (cases "executeWithRetry env_silent (createCustomMCPConfig None no_options) open_client ping world0") auto
  from e have "r = Throws (Error ''Request timeout'')"
    using silent_run by (simp add: default_config_def)
  with default_retries_at_most_three [OF h e] h e show ?thesis by simp
qed

text \<open>
  Claim C3 as stated (at most one retry by default) fails: with the default
  configuration and a provider that never answers, the request is attempted four times.
\<close>

theorem default_retries_more_than_once:
  "case executeWithRetry env_silent default_config open_client ping world0 of
     (r, c', w') \<Rightarrow>
       r = Throws (Error ''Request timeout'') \<and> requested w' = [ping, ping, ping, ping] \<and>
       slept w' = [1000, 2000, 4000] \<and> \<not> length (requested w') \<le> 2"
  by (simp add: silent_run)

text \<open>
  Claim C4, as amended.  An error is retryable exactly when its message matches one of
  four patterns: timeout, connection reset, server temporarily unavailable, rate limit.
  When an attempt of the loop fails, a further attempt is made exactly when a retry is
  left (\<^verbatim>\<open>attempt < maxRetries\<close>) and the error is retryable; otherwise that error is
  thrown with no further attempt and no delay.  (\<^verbatim>\<open>executeWithRetry\<close> is the loop from
  attempt \<open>0\<close>, with \<^verbatim>\<open>retryAttempts || 3\<close> for \<^verbatim>\<open>maxRetries\<close>.)
\<close>

theorem retry_iff_retryable:
  assumes first: "request env rq c (snd (Date_now env w)) = (Throws (Error m), c2, w2)"
    and aM: "int a \<le> M"
    and ex: "executeWithRetry_loop env M rq a lastErr c w = (r, c', w')"
  shows "(isRetryableError m \<longleftrightarrow>
            test_i ''timeout'' m \<or> test_i ''connection reset'' m \<or>
            test_i ''server temporarily unavailable'' m \<or> test_i ''rate limit'' m) \<and>
         (if int a < M \<and> isRetryableError m
          then \<exists>n. requested w' = requested w @ replicate (Suc (Suc n)) rq \<and>
                   slept w' = slept w @ backoffs a (Suc n)
          else r = Throws (Error m) \<and> requested w' = requested w @ [rq] \<and> slept w' = slept w)"
proof -
  have pat: "isRetryableError m \<longleftrightarrow>
            test_i ''timeout'' m \<or> test_i ''connection reset'' m \<or>
            test_i ''server temporarily unavailable'' m \<or> test_i ''rate limit'' m"
    by (simp add: isRetryableError_def retryablePatterns_def)
  note rw = request_world [OF first] Date_now_world
  have unfold: "executeWithRetry_loop env M rq a lastErr c w =
      (if int a < M \<and> isRetryableError m
       then executeWithRetry_loop env M rq (a + 1) (Some (Error m)) c2
              (w2\<lparr>slept := slept w2 @ [2 ^ a * 1000]\<rparr>)
       else (Throws (Error m), c2, w2))"
    by (simp add: loop_Throws [OF aM first, of lastErr])
  have rest: "(if int a < M \<and> isRetryableError m
          then \<exists>n. requested w' = requested w @ replicate (Suc (Suc n)) rq \<and>
                   slept w' = slept w @ backoffs a (Suc n)
          else r = Throws (Error m) \<and> requested w' = requested w @ [rq] \<and> slept w' = slept w)"
  proof (cases "int a < M \<and> isRetryableError m")
    case False
    with ex unfold rw show ?thesis by auto
  next
    case True
    let ?w3 = "w2\<lparr>slept := slept w2 @ [2 ^ a * 1000]\<rparr>"
    from True ex unfold
    have rec: "executeWithRetry_loop env M rq (a + 1) (Some (Error m)) c2 ?w3 = (r, c', w')"
      by simp
    from True have "int (a + 1) \<le> M" by simp
    from loop_trace [OF rec this] obtain n where
      n: "requested w' = requested ?w3 @ replicate (Suc n) rq"
         "slept w' = slept ?w3 @ backoffs (a + 1) n"
      by blast
    have "requested w' = requested w @ replicate (Suc (Suc n)) rq"
      using n(1) rw by (simp add: replicate_app_Cons_same)
    moreover have "slept w' = slept w @ backoffs a (Suc n)"
      using n(2) rw backoffs_Suc [of a n] by simp
    ultimately show ?thesis using True by auto
  qed
  from pat rest show ?thesis by blast
qed

lemma unavailable_run:
  "executeWithRetry env_unavailable default_config open_client ping world0 =
     (Throws (Error ''Server temporarily unavailable''), open_client\<lparr>requestId := 4\<rparr>,
      world0\<lparr>sent := map (\<lambda>i. \<lparr>jsonrpc = ''2.0'', out_id = i, out_method = ''ping'', out_params = JObj []\<rparr>) [1, 2, 3, 4],
             settled := map (\<lambda>i. Rejected i (Error ''Server temporarily unavailable'')) [1, 2, 3, 4],
             slept := [1000, 2000, 4000],
             requested := [ping, ping, ping, ping],
             readings := 4\<rparr>)"
  by (simp add: executeWithRetry_def default_config_def createCustomMCPConfig_def no_options_def
      num_or_def executeWithRetry_loop.simps Date_now_def request_def request_send_def Let_def
      env_unavailable_def unavailable_def handleMessage_def request_timer_def settlement_outcome_def
      open_client_def ping_def world0_def unavailable_is_retryable)

lemma unavailable_first:
  "request env_unavailable ping open_client (snd (Date_now env_unavailable world0)) =
     (Throws (Error ''Server temporarily unavailable''), open_client\<lparr>requestId := 1\<rparr>,
      world0\<lparr>sent := [\<lparr>jsonrpc = ''2.0'', out_id = 1, out_method = ''ping'', out_params = JObj []\<rparr>],
             settled := [Rejected 1 (Error ''Server temporarily unavailable'')],
             requested := [ping], readings := 1\<rparr>)"
  by (simp add: Date_now_def request_def request_send_def Let_def
      env_unavailable_def unavailable_def handleMessage_def request_timer_def settlement_outcome_def
      open_client_def ping_def world0_def)

text \<open>A server that answers \<^verbatim>\<open>Server temporarily unavailable\<close> is asked again.\<close>

theorem retry_iff_retryable_witness:
  "request env_unavailable ping open_client (snd (Date_now env_unavailable world0)) =
     (Throws (Error ''Server temporarily unavailable''), open_client\<lparr>requestId := 1\<rparr>,
      world0\<lparr>sent := [\<lparr>jsonrpc = ''2.0'', out_id = 1, out_method = ''ping'', out_params = JObj []\<rparr>],
             settled := [Rejected 1 (Error ''Server temporarily unavailable'')],
             requested := [ping], readings := 1\<rparr>) \<and>
   int 0 \<le> (3::int) \<and> int 0 < (3::int) \<and>
   isRetryableError ''Server temporarily unavailable'' \<and>
   (\<exists>n. requested (snd (snd (executeWithRetry_loop env_unavailable 3 ping 0 None open_client world0)))
          = requested world0 @ replicate (Suc (Suc n)) ping)"
proof -
  have M: "int 0 \<le> (3::int)" and M': "int 0 < (3::int)" by simp_all
  obtain r c' w' where
    e: "executeWithRetry_loop env_unavailable 3 ping 0 None open_client world0 = (r, c', w')"
    by (cases "executeWithRetry_loop env_unavailable 3 ping 0 None open_client world0") auto
  from retry_iff_retryable [OF unavailable_first M e] M' unavailable_is_retryable
  have "\<exists>n. requested w' = requested world0 @ replicate (Suc (Suc n)) ping" by auto
  with unavailable_first M M' unavailable_is_retryable e show ?thesis by simp
qed

text \<open>
  Claim C4 as stated (timeout, connection reset and rate limit are the only retryable
  kinds) fails: an error that is none of the three is retried.
\<close>

theorem retries_on_server_unavailable:
  "\<not> claimed_retryable ''Server temporarily unavailable'' \<and>
   isRetryableError ''Server temporarily unavailable'' \<and>
   (case executeWithRetry env_unavailable default_config open_client ping world0 of
      (r, c', w') \<Rightarrow>
        r = Throws (Error ''Server temporarily unavailable'') \<and>
        requested w' = [ping, ping, ping, ping])"
  using unavailable_is_retryable by (simp add: unavailable_run)

text \<open>
  Claim C5, as amended.  When \<^verbatim>\<open>connect\<close> succeeds, the available tools are an array
  of tools that each have a string for a name, and none of them is the tool the map
  gives for the task type, \<^verbatim>\<open>invoke\<close> returns a failed ToolResponse with the message
  \<^verbatim>\<open>No MCP tool available for task type\<close> and error type \<^verbatim>\<open>Error\<close>, and does nothing
  beyond what \<^verbatim>\<open>connect\<close> did: no tool call, no retry, and nothing at all when the
  connector was connected already.
\<close>

theorem unsupported_task_fails_in_band:
  assumes "connect env k w = (Returns c, k1, w1)"
    and "availableTools k1 = JArr tools" and "list_all named tools"
    and "\<not> supports tools (task_type task)"
  shows "invoke env task ctx k w =
           (Returns (mcp_failure (config k)
              (''No MCP tool available for task type: '' @ task_type task) ''Error''), k1, w1) \<and>
         \<not> success (mcp_failure (config k)
              (''No MCP tool available for task type: '' @ task_type task) ''Error'') \<and>
         (client k \<noteq> None \<longrightarrow> k1 = k \<and> w1 = w)"
proof -
  from unsupported_null [OF assms(3,4)] assms(2)
  have "mapTaskToMCPTool (availableTools k1) task = Inr None" by simp
  with invoke_after_connect [OF assms(1), of task ctx] assms(1) show ?thesis
    by (auto simp: connect_def mcp_failure_def)
qed

lemma fresh_connect:
  "connect (env_answering tools) (new_CustomMCPConnector default_config) world0 =
     (Returns (open_client\<lparr>requestId := 1\<rparr>),
      \<lparr>client = Some (open_client\<lparr>requestId := 1\<rparr>), availableTools = JArr tools,
       config = default_config\<rparr>,
      world0\<lparr>sent := [\<lparr>jsonrpc = ''2.0'', out_id = 1, out_method = ''tools/list'', out_params = JObj []\<rparr>],
             settled := [Resolved 1 (answer 1 tools)],
             dialed := [''ws://localhost:3003''],
             requested := [\<lparr>rq_method = ''tools/list'', rq_params = JObj []\<rparr>]\<rparr>)"
  by (simp add: connect_def new_CustomMCPConnector_def default_config_def createCustomMCPConfig_def
      no_options_def num_or_def str_or_def initialize_def initialize_start_def socket_opens_def
      new_CustomMCPClient_def listTools_def request_def request_send_def Let_def env_answering_def
      answer_def handleMessage_def request_timer_def settlement_outcome_def open_client_def
      world0_def wsUrl_def)

text \<open>A connected connector offering the code analyzer, and a deployment task.\<close>

theorem unsupported_task_fails_in_band_witness:
  "connect env_silent connected_connector world0 = (Returns open_client, connected_connector, world0) \<and>
   availableTools connected_connector = JArr [code_analyzer] \<and> list_all named [code_analyzer] \<and>
   \<not> supports [code_analyzer] (task_type deployment_task) \<and>
   client connected_connector \<noteq> None \<and>
   invoke env_silent deployment_task empty_context connected_connector world0 =
     (Returns \<lparr>success = False, data = JUndefined,
               error = Some ''No MCP tool available for task type: deployment'',
               toolId = ''custom-mcp'',
               metadata = [(''errorType'', JStr ''Error''), (''retryAttempts'', JNum 3)]\<rparr>,
      connected_connector, world0)"
proof -
  have c: "connect env_silent connected_connector world0 = (Returns open_client, connected_connector, world0)"
    by (simp add: connect_def connected_connector_def)
  have a: "availableTools connected_connector = JArr [code_analyzer]"
    by (simp add: connected_connector_def)
  have n: "list_all named [code_analyzer]" by (simp add: code_analyzer_def)
  have s: "\<not> supports [code_analyzer] (task_type deployment_task)"
    by (simp add: supports_def taskToToolMap_def deployment_task_def)
  have k: "client connected_connector \<noteq> None" by (simp add: connected_connector_def)
  have r: "num_or (retryAttempts (config connected_connector)) 0 = 3"
    by (simp add: connected_connector_def default_config_def createCustomMCPConfig_def
        no_options_def num_or_def)
  from unsupported_task_fails_in_band [OF c a n s, of empty_context] c a n s k r show ?thesis
    by (simp add: deployment_task_def mcp_failure_def)
qed

text \<open>
  Claim C5 as stated (no request is sent to the provider) fails on a connector that is
  not connected yet: \<^verbatim>\<open>invoke\<close> connects first, and \<^verbatim>\<open>connect\<close> sends
  \<^verbatim>\<open>tools/list\<close>, before the unsupported task is answered with a failure.
\<close>

theorem unsupported_task_sends_handshake:
  "case invoke (env_answering []) deployment_task empty_context
          (new_CustomMCPConnector default_config) world0 of
     (r, k', w') \<Rightarrow>
       availableTools k' = JArr [] \<and> \<not> supports [] (task_type deployment_task) \<and>
       (\<exists>resp. r = Returns resp \<and> \<not> success resp) \<and>
       map out_method (sent w') = [''tools/list''] \<and> sent w' \<noteq> sent world0"
  by (simp add: invoke_after_connect [OF fresh_connect] mapTaskToMCPTool_def supports_def
      taskToToolMap_def deployment_task_def mcp_failure_def)
     (simp add: world0_def)

text \<open>
  Claim C1, as amended.  Once \<^verbatim>\<open>connect\<close> has succeeded, every failure inside
  \<^verbatim>\<open>invoke\<close> comes back as a ToolResponse with \<open>success\<close> false and the message of the
  error.  For the MCP connector, with a retry count that is not negative: \<^verbatim>\<open>invoke\<close>
  returns a response with its tool id, with an error exactly when \<open>success\<close> is false;
  a \<^verbatim>\<open>TypeError\<close> of the tool lookup, a missing tool, and whatever error the retry loop
  ends with (a first request failing with an error that is not retryable among them)
  each give the failed response with that message, and only a request that is answered
  gives a successful one.  For the Continue connector: a handler that refuses the task
  and a command that fails give the failed response with that message, a command that
  completes gives a successful response, and one that never settles leaves the
  invocation pending.
\<close>

theorem invoke_failures_in_band:
  "(connect env k w = (Returns c, k1, w1) \<and> 0 \<le> num_or (retryAttempts (config k)) 3 \<longrightarrow>
      (\<exists>resp k' w'. invoke env task ctx k w = (Returns resp, k', w') \<and>
         toolId resp = ''custom-mcp'' \<and> (success resp \<longleftrightarrow> error resp = None)) \<and>
      (\<forall>e. mapTaskToMCPTool (availableTools k1) task = Inl e \<longrightarrow>
         (\<exists>m. e = TypeError m \<and>
              invoke env task ctx k w =
                (Returns (mcp_failure (config k) m ''TypeError''), k1, w1))) \<and>
      (mapTaskToMCPTool (availableTools k1) task = Inr None \<longrightarrow>
         invoke env task ctx k w =
           (Returns (mcp_failure (config k)
              (''No MCP tool available for task type: '' @ task_type task) ''Error''), k1, w1)) \<and>
      (\<forall>tool r c2 w2.
         mapTaskToMCPTool (availableTools k1) task = Inr (Some tool) \<and>
         executeWithRetry env (config k) c (mcpRequest tool task ctx) w1 = (r, c2, w2) \<longrightarrow>
         (case r of
            Returns res \<Rightarrow>
              invoke env task ctx k w =
                (Returns (mcp_success tool res), k1\<lparr>client := Some c2\<rparr>, w2)
          | Throws e \<Rightarrow>
              (\<exists>m. e = Error m \<and>
                   invoke env task ctx k w =
                     (Returns (mcp_failure (config k) m ''Error''), k1\<lparr>client := Some c2\<rparr>, w2))
          | Hangs \<Rightarrow> False)) \<and>
      (\<forall>tool m c2 w2.
         mapTaskToMCPTool (availableTools k1) task = Inr (Some tool) \<and>
         request env (mcpRequest tool task ctx) c (snd (Date_now env w1)) =
           (Throws (Error m), c2, w2) \<and>
         \<not> isRetryableError m \<longrightarrow>
         invoke env task ctx k w =
           (Returns (mcp_failure (config k) m ''Error''), k1\<lparr>client := Some c2\<rparr>, w2))) \<and>
   (Continue_connect v kc = (Returns u, kc1, v1) \<longrightarrow>
      (case guard_failure v1 (continue_config kc1) task of
         Some m \<Rightarrow> Continue_invoke v task ctx kc = (Returns (continue_failure task m), kc1, v1)
       | None \<Rightarrow>
           (case command_result v1 (length (executed v1)) of
              Fails m \<Rightarrow> fst (Continue_invoke v task ctx kc) = Returns (continue_failure task m)
            | Completes res \<Rightarrow>
                (\<exists>resp. fst (Continue_invoke v task ctx kc) = Returns resp \<and>
                   success resp \<and> error resp = None \<and> toolId resp = ''continue'')
            | NeverSettles \<Rightarrow> fst (Continue_invoke v task ctx kc) = Hangs)))"
  using invoke_in_band [of env k w c k1 w1 task ctx]
    Continue_invoke_in_band [of v kc u kc1 v1 task ctx]
  by blast

lemma failing_connect:
  "Continue_connect vscode_failing continue_connected = (Returns (), continue_connected, vscode_failing)"
  by (simp add: Continue_connect_def continue_connected_def)

text \<open>
  A connected MCP connector whose provider never answers the tool call, and a connected
  Continue connector whose command fails: both return a failed response.
\<close>

theorem invoke_failures_in_band_witness:
  "connect env_silent connected_connector world0 = (Returns open_client, connected_connector, world0) \<and>
   0 \<le> num_or (retryAttempts (config connected_connector)) 3 \<and>
   mapTaskToMCPTool (availableTools connected_connector) analysis_task = Inr (Some code_analyzer) \<and>
   fst (executeWithRetry env_silent (config connected_connector) open_client
          (mcpRequest code_analyzer analysis_task empty_context) world0) =
     Throws (Error ''Request timeout'') \<and>
   fst (invoke env_silent analysis_task empty_context connected_connector world0) =
     Returns \<lparr>success = False, data = JUndefined, error = Some ''Request timeout'',
              toolId = ''custom-mcp'',
              metadata = [(''errorType'', JStr ''Error''), (''retryAttempts'', JNum 3)]\<rparr> \<and>
   Continue_connect vscode_failing continue_connected =
     (Returns (), continue_connected, vscode_failing) \<and>
   guard_failure vscode_failing (continue_config continue_connected) planning_task = None \<and>
   command_result vscode_failing (length (executed vscode_failing)) = Fails ''Continue is overloaded'' \<and>
   fst (Continue_invoke vscode_failing planning_task empty_context continue_connected) =
     Returns \<lparr>success = False, data = JUndefined, error = Some ''Continue is overloaded'',
              toolId = ''continue'',
              metadata = [(''taskType'', JStr ''planning''), (''errorType'', JStr ''Error'')]\<rparr>"
proof -
  have c: "connect env_silent connected_connector world0 = (Returns open_client, connected_connector, world0)"
    by (simp add: connect_def connected_connector_def)
  have cfg: "config connected_connector = default_config" by (simp add: connected_connector_def)
  have M: "0 \<le> num_or (retryAttempts (config connected_connector)) 3"
    and r: "num_or (retryAttempts (config connected_connector)) 0 = 3"
    by (simp_all add: cfg default_config_def createCustomMCPConfig_def no_options_def num_or_def)
  have t: "mapTaskToMCPTool (availableTools connected_connector) analysis_task = Inr (Some code_analyzer)"
    by (simp add: connected_connector_def mapTaskToMCPTool_def taskToToolMap_at_def
        taskToToolMap_def analysis_task_def code_analyzer_def)
  obtain c2 w2 where
    ex: "executeWithRetry env_silent (config connected_connector) open_client
           (mcpRequest code_analyzer analysis_task empty_context) world0 =
         (Throws (Error ''Request timeout''), c2, w2)"
    by (simp add: cfg silent_retries)
  note mcp = invoke_failures_in_band
    [where env = env_silent and k = connected_connector and w = world0 and task = analysis_task
       and ctx = empty_context and c = open_client and ?k1.0 = connected_connector
       and ?w1.0 = world0,
     THEN conjunct1, THEN mp, OF conjI [OF c M]]
  from mcp t ex
  have "\<exists>m. Error ''Request timeout'' = Error m \<and>
          invoke env_silent analysis_task empty_context connected_connector world0 =
            (Returns (mcp_failure (config connected_connector) m ''Error''),
             connected_connector\<lparr>client := Some c2\<rparr>, w2)"
    by (elim conjE allE [of _ code_analyzer] allE [of _ "Throws (Error ''Request timeout'')"]
        allE [of _ c2] allE [of _ w2]) simp
  then have a: "fst (invoke env_silent analysis_task empty_context connected_connector world0) =
     Returns \<lparr>success = False, data = JUndefined, error = Some ''Request timeout'',
              toolId = ''custom-mcp'',
              metadata = [(''errorType'', JStr ''Error''), (''retryAttempts'', JNum 3)]\<rparr>"
    using r by (auto simp: mcp_failure_def)
  have g: "guard_failure vscode_failing (continue_config continue_connected) planning_task = None"
    by (simp add: guard_failure_def planning_task_def continue_connected_def
        default_continue_config_def createContinueConfig_def)
  have f: "command_result vscode_failing (length (executed vscode_failing)) =
             Fails ''Continue is overloaded''"
    by (simp add: vscode_failing_def)
  from invoke_failures_in_band
    [where v = vscode_failing and kc = continue_connected and task = planning_task
       and ctx = empty_context,
     THEN conjunct2, THEN mp, OF failing_connect] g f
  have b: "fst (Continue_invoke vscode_failing planning_task empty_context continue_connected) =
     Returns \<lparr>success = False, data = JUndefined, error = Some ''Continue is overloaded'',
              toolId = ''continue'',
              metadata = [(''taskType'', JStr ''planning''), (''errorType'', JStr ''Error'')]\<rparr>"
    by (simp add: continue_failure_def planning_task_def)
  from c M t ex a failing_connect g f b show ?thesis by simp
qed

lemma ready_connect:
  "Continue_connect vscode_ready (new_ContinueConnector default_continue_config) =
     (Returns (), \<lparr>extension = Some \<lparr>isActive = True\<rparr>, isInitialized = True,
                   continue_config = default_continue_config\<rparr>, vscode_ready)"
  by (simp add: Continue_connect_def new_ContinueConnector_def getExtension_def vscode_ready_def)

text \<open>
  Claim C1 as stated (a failure is never thrown to the caller) fails: both connectors
  await \<^verbatim>\<open>connect\<close> before the \<^verbatim>\<open>try\<close> block, so a failure to connect is thrown.
\<close>

theorem invoke_throws_connect_failure:
  "fst (invoke env_refused analysis_task empty_context (new_CustomMCPConnector default_config) world0)
     = Throws (Error ''Failed to connect to MCP server'') \<and>
   fst (Continue_invoke vscode_without_continue analysis_task empty_context
          (new_ContinueConnector default_continue_config))
     = Throws (Error ''Continue extension not found'')"
  by (simp add: invoke_def connect_def new_CustomMCPConnector_def initialize_def
      initialize_start_def env_refused_def onclose_def rejectPendingRequests_def
      new_CustomMCPClient_def Continue_invoke_def Continue_connect_def new_ContinueConnector_def
      getExtension_def vscode_without_continue_def)

lemma executeWithRetry_not_Hangs: "fst (executeWithRetry env cfg c rq w) \<noteq> Hangs"
proof (cases "0 \<le> num_or (retryAttempts cfg) 3")
  case True
  obtain r c' w' where e: "executeWithRetry env cfg c rq w = (r, c', w')"
    by (cases "executeWithRetry env cfg c rq w") auto
  from executeWithRetry_trace(1) [OF e True] e show ?thesis by simp
next
  case False
  then show ?thesis by (simp add: executeWithRetry_def loop_exit)
qed

lemma invoke_catch_not_Hangs: "invoke_catch cfg e \<noteq> Hangs"
  by (cases e) (simp_all add: invoke_catch_def)

lemma invoke_not_Hangs: "fst (invoke env task ctx k w) \<noteq> Hangs"
proof -
  obtain o1 k1 w1 where con: "connect env k w = (o1, k1, w1)" by (cases "connect env k w") auto
  from connect_not_Hangs [of env k w] con have o1: "o1 \<noteq> Hangs" by simp
  show ?thesis
  proof (cases o1)
    case (Returns c)
    with con have con': "connect env k w = (Returns c, k1, w1)" by simp
    show ?thesis
    proof (cases "mapTaskToMCPTool (availableTools k1) task")
      case (Inl e)
      with invoke_after_connect [OF con', of task ctx] show ?thesis
        by (simp add: invoke_catch_not_Hangs)
    next
      case (Inr found)
      show ?thesis
      proof (cases found)
        case None
        with Inr invoke_after_connect [OF con', of task ctx] show ?thesis by simp
      next
        case (Some mcpTool)
        obtain r c2 w2 where
          ex: "executeWithRetry env (config k) c (mcpRequest mcpTool task ctx) w1 = (r, c2, w2)"
          by (cases "executeWithRetry env (config k) c (mcpRequest mcpTool task ctx) w1") auto
        from executeWithRetry_not_Hangs [of env "config k" c "mcpRequest mcpTool task ctx" w1] ex
        have "r \<noteq> Hangs" by simp
        with Some Inr ex invoke_after_connect [OF con', of task ctx] show ?thesis
          by (cases r) (simp_all add: invoke_catch_not_Hangs)
      qed
    qed
  next
    case (Throws e)
    with con show ?thesis by (simp add: invoke_def)
  next
    case Hangs
    with o1 show ?thesis by simp
  qed
qed

text \<open>
  Claim C6 at the Continue connector: the configuration carries \<^verbatim>\<open>maxResponseTime\<close>,
  yet \<^verbatim>\<open>invoke\<close> awaits the command with no timer, so with a command that never
  settles the invocation stays pending for ever.  (The MCP connector never stays
  pending: \<open>invoke_not_Hangs\<close>.)
\<close>

theorem Continue_invoke_never_returns:
  "maxResponseTime default_continue_config = 30000 \<and>
   fst (Continue_invoke vscode_unanswering planning_task empty_context
          (new_ContinueConnector default_continue_config)) = Hangs"
  by (simp add: Continue_invoke_def ready_connect [unfolded vscode_ready_def] Continue_connect_def
      new_ContinueConnector_def getExtension_def vscode_unanswering_def vscode_ready_def
      default_continue_config_def createContinueConfig_def planning_task_def handlePlanning_def
      executeCommand_def Let_def)

text \<open>
  Claim C7, as amended.  A second \<^verbatim>\<open>disconnect\<close> changes nothing, on either connector.
  After \<^verbatim>\<open>disconnect\<close> the MCP connector holds no client; the client it held has been
  closed: \<^verbatim>\<open>ws.close()\<close> was called on its socket if it had one, its socket reference
  is null, its table is empty and its pending requests have been rejected with
  \<^verbatim>\<open>Client closing\<close>.  The Continue connector is marked as not initialised and keeps
  its reference to the extension.
\<close>

theorem disconnect_idempotent:
  "(case disconnect k w of
      (k1, w1) \<Rightarrow>
        disconnect k1 w1 = (k1, w1) \<and> client k1 = None \<and>
        (client k = None \<longrightarrow> k1 = k \<and> w1 = w) \<and>
        (\<forall>c. client k = Some c \<longrightarrow>
           (case close c w of
              (c', w') \<Rightarrow> w1 = w' \<and> ws c' = None \<and> pendingRequests c' = []) \<and>
           socket_closes w1 = socket_closes w + (if ws c \<noteq> None then 1 else 0) \<and>
           settled w1 =
             settled w @
             map (\<lambda>(i, pending). Rejected pending (Error ''Client closing'')) (pendingRequests c))) \<and>
   Continue_disconnect (Continue_disconnect kc) = Continue_disconnect kc \<and>
   \<not> isInitialized (Continue_disconnect kc) \<and>
   extension (Continue_disconnect kc) = extension kc"
  by (cases "client k")
     (auto simp: disconnect_def Continue_disconnect_def close_unfold rejectPendingRequests_def)

lemma disconnect_example:
  "disconnect connected_connector world0 =
     (connected_connector\<lparr>client := None\<rparr>, world0\<lparr>socket_closes := 1\<rparr>)"
  by (simp add: disconnect_def close_unfold rejectPendingRequests_def connected_connector_def
      open_client_def world0_def)

text \<open>A connected MCP connector with an open socket, and a connected Continue connector.\<close>

theorem disconnect_idempotent_witness:
  "client connected_connector = Some open_client \<and> ws open_client \<noteq> None \<and>
   disconnect connected_connector world0 =
     (connected_connector\<lparr>client := None\<rparr>, world0\<lparr>socket_closes := 1\<rparr>) \<and>
   disconnect (connected_connector\<lparr>client := None\<rparr>) (world0\<lparr>socket_closes := 1\<rparr>) =
     (connected_connector\<lparr>client := None\<rparr>, world0\<lparr>socket_closes := 1\<rparr>) \<and>
   socket_closes (world0\<lparr>socket_closes := 1\<rparr>) = socket_closes world0 + 1 \<and>
   extension (Continue_disconnect continue_connected) = extension continue_connected"
proof -
  have c: "client connected_connector = Some open_client"
    by (simp add: connected_connector_def)
  have o: "ws open_client \<noteq> None" by (simp add: open_client_def)
  from disconnect_idempotent [where k = connected_connector and w = world0
      and kc = continue_connected] c o
  show ?thesis unfolding disconnect_example by simp
qed

text \<open>
  Claim C7 as stated (after \<^verbatim>\<open>disconnect\<close> the connection reference is released) fails
  at the Continue connector: the extension it obtained in \<^verbatim>\<open>connect\<close> is still in
  \<^verbatim>\<open>this.extension\<close> after \<^verbatim>\<open>disconnect\<close>.
\<close>

theorem Continue_disconnect_keeps_extension:
  "Continue_connect vscode_ready (new_ContinueConnector default_continue_config) =
     (Returns (), continue_connected, vscode_ready) \<and>
   extension continue_connected = Some \<lparr>isActive = True\<rparr> \<and>
   extension (Continue_disconnect continue_connected) = Some \<lparr>isActive = True\<rparr> \<and>
   extension (Continue_disconnect continue_connected) \<noteq> None"
  by (simp add: Continue_connect_def new_ContinueConnector_def getExtension_def vscode_ready_def
      continue_connected_def Continue_disconnect_def)

text \<open>
  Claim C8.  \<^verbatim>\<open>testHealth\<close> always returns a boolean, and neither throws nor stays
  pending.  For the MCP connector it is true exactly when \<^verbatim>\<open>connect\<close> succeeds and the
  ping is answered with the result \<^verbatim>\<open>pong\<close>; for the Continue connector exactly when
  the extension is found and active.
\<close>

theorem health_is_boolean:
  "(\<exists>b k' w'. testHealth env k w = (Returns b, k', w') \<and>
      (b \<longleftrightarrow> (\<exists>c k1 w1 pingResponse c2 w2.
               connect env k w = (Returns c, k1, w1) \<and>
               request env \<lparr>rq_method = ''ping'', rq_params = JObj []\<rparr> c w1 =
                 (Returns pingResponse, c2, w2) \<and>
               msg_result pingResponse = JStr ''pong''))) \<and>
   Continue_testHealth v =
     Returns (\<exists>ext. getExtension v = Inr (Some ext) \<and> isActive ext)"
proof
  obtain o1 k1 w1 where con: "connect env k w = (o1, k1, w1)" by (cases "connect env k w") auto
  from connect_not_Hangs [of env k w] con have o1: "o1 \<noteq> Hangs" by simp
  show "\<exists>b k' w'. testHealth env k w = (Returns b, k', w') \<and>
      (b \<longleftrightarrow> (\<exists>c k1 w1 pingResponse c2 w2.
               connect env k w = (Returns c, k1, w1) \<and>
               request env \<lparr>rq_method = ''ping'', rq_params = JObj []\<rparr> c w1 =
                 (Returns pingResponse, c2, w2) \<and>
               msg_result pingResponse = JStr ''pong''))"
  proof (cases o1)
    case (Returns c)
    obtain o2 c2 w2 where rq: "request env \<lparr>rq_method = ''ping'', rq_params = JObj []\<rparr> c w1 = (o2, c2, w2)"
      by (cases "request env \<lparr>rq_method = ''ping'', rq_params = JObj []\<rparr> c w1") auto
    from request_not_Hangs [of env "\<lparr>rq_method = ''ping'', rq_params = JObj []\<rparr>" c w1] rq
    have "o2 \<noteq> Hangs" by simp
    with Returns con rq show ?thesis by (cases o2) (auto simp: testHealth_def)
  next
    case (Throws e)
    with con show ?thesis by (auto simp: testHealth_def)
  next
    case Hangs
    with o1 show ?thesis by simp
  qed
next
  show "Continue_testHealth v = Returns (\<exists>ext. getExtension v = Inr (Some ext) \<and> isActive ext)"
    by (simp add: Continue_testHealth_def split: sum.split option.split)
qed

text \<open>
  Claim C9.  When the Continue extension is missing or inactive, the capability probe
  returns the empty list; whatever it returns is a list without repetitions of the six
  capability names.
\<close>

theorem probe_failure_yields_empty:
  "(getExtension v = Inr ext \<and> (ext = None \<or> (\<exists>x. ext = Some x \<and> \<not> isActive x)) \<longrightarrow>
      testContinueCapabilities v = Returns []) \<and>
   (\<forall>caps. testContinueCapabilities v = Returns caps \<longrightarrow>
      distinct caps \<and> set caps \<subseteq> set capability_names)"
  by (auto simp: testContinueCapabilities_def capability_names_def Let_def
      split: sum.splits option.splits if_splits)

text \<open>An inactive extension, and an active one offering all three commands.\<close>

theorem probe_failure_yields_empty_witness:
  "getExtension vscode_inactive = Inr (Some \<lparr>isActive = False\<rparr>) \<and>
   testContinueCapabilities vscode_inactive = Returns [] \<and>
   testContinueCapabilities vscode_ready = Returns capability_names \<and>
   distinct capability_names"
proof -
  have g: "getExtension vscode_inactive = Inr (Some \<lparr>isActive = False\<rparr>)"
    by (simp add: getExtension_def vscode_inactive_def vscode_ready_def)
  have r: "testContinueCapabilities vscode_ready = Returns capability_names"
    by (simp add: testContinueCapabilities_def getExtension_def vscode_ready_def
        continue_commands_def capability_names_def)
  from probe_failure_yields_empty [of vscode_inactive "Some \<lparr>isActive = False\<rparr>"] g
  have e: "testContinueCapabilities vscode_inactive = Returns []" by simp
  from probe_failure_yields_empty [of vscode_ready] r have "distinct capability_names" by blast
  with g e r show ?thesis by simp
qed

section \<open>Determinism of routing\<close>

lemma rank_key_inj:
  assumes "distinct (map provider_id xs)"
  shows "inj_on (rank_key r) (set xs)"
proof (rule inj_onI)
  fix p q assume p: "p \<in> set xs" and q: "q \<in> set xs" and k: "rank_key r p = rank_key r q"
  from k have "provider_id p = provider_id q" by (simp add: rank_key_def)
  moreover from assms have "inj_on provider_id (set xs)" by (simp add: distinct_map)
  ultimately show "p = q" using p q by (auto dest: inj_onD)
qed

lemma rank_unique:
  assumes s: "set xs = set ys"
    and dx: "distinct (map provider_id xs)" and dy: "distinct (map provider_id ys)"
  shows "rank r xs = rank r ys"
proof -
  let ?k = "rank_key r"
  have ix: "inj_on ?k (set xs)" using dx by (rule rank_key_inj)
  have iy: "inj_on ?k (set ys)" using dy by (rule rank_key_inj)
  from dx have "distinct xs" by (simp add: distinct_map)
  with ix have d1: "distinct (map ?k (sort_key ?k xs))" by (simp add: distinct_map)
  from dy have "distinct ys" by (simp add: distinct_map)
  with iy have d2: "distinct (map ?k (sort_key ?k ys))" by (simp add: distinct_map)
  have "set (map ?k (sort_key ?k xs)) = set (map ?k (sort_key ?k ys))" using s by simp
  with d1 d2 have "map ?k (sort_key ?k xs) = map ?k (sort_key ?k ys)"
    by (intro sorted_distinct_set_unique) simp_all
  moreover have "inj_on ?k (set (sort_key ?k xs) \<union> set (sort_key ?k ys))" using ix s by simp
  ultimately show ?thesis unfolding rank_def by (simp add: inj_on_map_eq_map)
qed

lemma distinct_ids_filter:
  "distinct (map provider_id xs) \<Longrightarrow> distinct (map provider_id (filter P xs))"
  by (rule distinct_map_filter)

text \<open>
  Claim C2.  The registry snapshot is a set of providers with unique ids; in whatever
  order it is enumerated, \<open>route\<close> yields the same plan: the same primary, the same
  supporting providers and the same fallback chain in the same order.  Nothing is
  assumed of the scores, so this holds when scores are equal: the provider id, the last
  part of the ranking key, decides.
\<close>

theorem route_deterministic:
  assumes "set ps = set qs"
    and "distinct (map provider_id ps)" and "distinct (map provider_id qs)"
  shows "route r task ps = route r task qs"
proof -
  have c: "rank r (candidates task ps) = rank r (candidates task qs)"
    unfolding candidates_def using assms
    by (intro rank_unique distinct_ids_filter) simp_all
  have g: "rank r (filter (\<lambda>p. usable p \<and> generic r \<in> set (probed p)) ps) =
           rank r (filter (\<lambda>p. usable p \<and> generic r \<in> set (probed p)) qs)"
    using assms by (intro rank_unique distinct_ids_filter) simp_all
  have e: "candidates task ps \<noteq> [] \<longleftrightarrow> candidates task qs \<noteq> []"
  proof -
    have "set (candidates task ps) = set (candidates task qs)"
      using assms(1) by (simp add: candidates_def)
    then show ?thesis by (metis set_empty)
  qed
  show ?thesis unfolding route_def using c g e by simp
qed

lemma scenario: "route equal_scores completion_task [provider_C, provider_B, provider_A] =
   Inr \<lparr>plan_task = ''t1'', primary = ''A'', supporting = [], fallback_chain = [''B''],
        plan_degraded = False\<rparr>"
  by (simp add: route_def candidates_def usable_def rank_def rank_key_def plan_of_def
      provider_A_def provider_B_def provider_C_def equal_scores_def completion_task_def)

text \<open>
  The three providers of the scenario in the specification, with all scores equal,
  enumerated in two orders: the lower latency makes \<open>A\<close> the primary.
\<close>

theorem route_deterministic_witness:
  "set [provider_A, provider_B, provider_C] = set [provider_C, provider_B, provider_A] \<and>
   distinct (map provider_id [provider_A, provider_B, provider_C]) \<and>
   distinct (map provider_id [provider_C, provider_B, provider_A]) \<and>
   route equal_scores completion_task [provider_A, provider_B, provider_C] =
     route equal_scores completion_task [provider_C, provider_B, provider_A] \<and>
   route equal_scores completion_task [provider_A, provider_B, provider_C] =
     Inr \<lparr>plan_task = ''t1'', primary = ''A'', supporting = [], fallback_chain = [''B''],
          plan_degraded = False\<rparr>"
proof -
  have s: "set [provider_A, provider_B, provider_C] = set [provider_C, provider_B, provider_A]"
    by auto
  have d1: "distinct (map provider_id [provider_A, provider_B, provider_C])"
    by (simp add: provider_A_def provider_B_def provider_C_def)
  have d2: "distinct (map provider_id [provider_C, provider_B, provider_A])"
    by (simp add: provider_A_def provider_B_def provider_C_def)
  from route_deterministic [OF s d1 d2, of equal_scores completion_task] scenario s d1 d2
  show ?thesis by simp
qed

end
